theory Spec2Isabelle
  imports Main "HOL-Library.Multiset"
begin

section \<open>Data model\<close>

text \<open>
  The service is an Express application over three Mongoose models (\<open>Project\<close>,
  \<open>Feedback\<close>, \<open>HireMe\<close>). A \<open>Date\<close> is its number of milliseconds since the epoch. A
  JavaScript \<open>Number\<close> that holds an \<open>id\<close> or a \<open>budget\<close> is an integer, one that a
  double represents exactly (fractions are not represented); its arithmetic is the
  double's, see \<open>plus_one\<close>. An \<open>ObjectId\<close> is its hexadecimal string. An \<open>Error\<close> object
  is its \<open>name\<close> and its \<open>message\<close>.
\<close>

type_synonym time = int
type_synonym oid = string

datatype js_error = JsError (err_name: string) (err_message: string)

text \<open>
  The schemas. Field names carry a prefix for the collection (\<open>p_\<close>, \<open>f_\<close>, \<open>h_\<close>), since
  the three schemas share names. \<open>f_oid\<close> is the \<open>_id\<close> of a Feedback document; the \<open>_id\<close> of
  a project or of a hire request is read by no route and is left out.
\<close>

record project =
  p_id :: int
  p_title :: string
  p_client :: "(string \<times> string) list option"
  p_category :: string
  p_img :: string
  p_description :: "string option"
  p_technologies :: "string list"
  p_createdAt :: time
  p_updatedAt :: time

record feedback =
  f_oid :: oid
  f_name :: string
  f_role :: string
  f_company :: string
  f_email :: string
  f_subject :: string
  f_message :: string
  f_approved :: bool
  f_createdAt :: time

record hire_me =
  h_name :: string
  h_email :: string
  h_company :: "string option"
  h_projectType :: string
  h_projectDescription :: string
  h_budget :: "int option"
  h_timeframe :: "string option"
  h_createdAt :: time

text \<open>The three collections, each in insertion order; they start empty.\<close>

record db =
  projects :: "project list"
  feedbacks :: "feedback list"
  hireRequests :: "hire_me list"

definition empty_db :: db where
  "empty_db = \<lparr>projects = [], feedbacks = [], hireRequests = []\<rparr>"

text \<open>
  \<open>req.body\<close> as the body parser delivers it (\<open>express.json\<close>, or multer for the text
  fields of a multipart request): the keys that some schema knows, each absent (\<open>None\<close>)
  or present with a value of the type the schema gives it (\<open>null\<close> is not represented).
  Keys no schema knows are dropped by Mongoose (strict mode) and are not represented;
  neither are keys that name an update operator of MongoDB (\<open>$set\<close>, \<open>$unset\<close>, ...). A
  request whose body the parser refuses (malformed JSON, a body or a text field beyond
  the parser's limit) reaches no validator and no handler, and is not represented.
\<close>

record body =
  b_id :: "int option"
  b_title :: "string option"
  b_client :: "(string \<times> string) list option"
  b_category :: "string option"
  b_img :: "string option"
  b_description :: "string option"
  b_technologies :: "string list option"
  b_createdAt :: "time option"
  b_updatedAt :: "time option"
  b_name :: "string option"
  b_role :: "string option"
  b_company :: "string option"
  b_email :: "string option"
  b_subject :: "string option"
  b_message :: "string option"
  b_approved :: "bool option"
  b_projectType :: "string option"
  b_projectDescription :: "string option"
  b_budget :: "int option"
  b_timeframe :: "string option"

text \<open>
  The part of a multipart request that carries a file, as multer sees it; \<open>size_bytes\<close> is
  the \<open>size\<close> of the file.
\<close>

record upload_part =
  fieldname :: string
  originalname :: string
  mimetype :: string
  size_bytes :: nat

record request =
  params_id :: string
  body :: body
  upload :: "upload_part option"

text \<open>What a handler passes to \<open>res.json\<close>, and the response it makes.\<close>

datatype payload =
    ProjectDocs "project list"
  | ProjectDoc project
  | FeedbackDocs "feedback list"
  | FeedbackDoc feedback
  | HireMeDocs "hire_me list"
  | HireMeDoc hire_me
  | Message string
  | ValidationErrors "string list"
  | DeleteResult bool nat
  | Failure string string

datatype response = Response (status: nat) (payload: payload)

text \<open>
  How a request leaves the middleware chain of its route: a response was sent; an error was
  handed to \<open>next\<close>; or the \<open>async\<close> handler threw, so that its promise is rejected.
\<close>

datatype outcome = Sent response | Next js_error | Rejected js_error

text \<open>
  What a request cannot decide itself. \<open>now\<close> is the clock (\<open>Date.now()\<close>, \<open>new Date()\<close>);
  \<open>fault k\<close> is the error, if any, that the \<open>k\<close>-th awaited database call of the request
  throws; \<open>newObjectId\<close> is the \<open>_id\<close> Mongoose generates for a new document.
\<close>

record env =
  now :: time
  fault :: "nat \<Rightarrow> js_error option"
  newObjectId :: oid

text \<open>
  Library functions the source calls and whose code is not part of the repository are
  parameters: \<open>isEmail\<close> and \<open>normalizeEmail\<close> of validator.js, the casts Mongoose applies
  to \<open>req.params.id\<close> (\<open>None\<close> is a \<open>CastError\<close>), whether the Express version in use
  forwards a rejected handler promise to the error handler (version 5) or not (version 4),
  and whether the multer version in use refuses a file of exactly \<open>limits.fileSize\<close> bytes
  (1.4.5-lts does, 2.x does not).
\<close>

record lib =
  isEmail :: "string \<Rightarrow> bool"
  normalizeEmail :: "string \<Rightarrow> string"
  castObjectId :: "string \<Rightarrow> oid option"
  castNumber :: "string \<Rightarrow> int option"
  express5 :: bool
  refuses_at_limit :: bool

section \<open>Numbers and dates\<close>

text \<open>
  \<open>lastProject.id + 1\<close> is an addition of doubles: the exact sum, rounded to the nearest
  double, a tie to the one with the even significand. \<open>to_Number\<close> rounds an integer so
  (53 bits of significand; the sums that occur stay finite), and \<open>plus_one\<close> is the
  addition of 1.
\<close>

fun bit_length :: "nat \<Rightarrow> nat" where
  "bit_length n = (if n = 0 then 0 else Suc (bit_length (n div 2)))"

declare bit_length.simps [simp del]

definition round_magnitude :: "nat \<Rightarrow> nat" where
  "round_magnitude m =
     (if bit_length m \<le> 53 then m
      else
        (let e = bit_length m - 53;
             q = m div 2 ^ e;
             r = m mod 2 ^ e;
             half = 2 ^ (e - 1)
         in (if half < r \<or> (r = half \<and> odd q) then q + 1 else q) * 2 ^ e))"

definition to_Number :: "int \<Rightarrow> int" where
  "to_Number i =
     (if i < 0 then - int (round_magnitude (nat (- i))) else int (round_magnitude (nat i)))"

definition plus_one :: "int \<Rightarrow> int" where
  "plus_one n = to_Number (n + 1)"

text \<open>
  A number of milliseconds is a \<open>Date\<close> within 8.64e15 of the epoch; beyond that the
  cast of Mongoose fails.
\<close>

definition valid_date :: "time \<Rightarrow> bool" where
  "valid_date t = (- 8640000000000000 \<le> t \<and> t \<le> 8640000000000000)"

definition date_ok :: "time option \<Rightarrow> bool" where
  "date_ok v = (case v of None \<Rightarrow> True | Some t \<Rightarrow> valid_date t)"

section \<open>Strings\<close>

text \<open>
  \<open>trim\<close> and \<open>escape\<close> of validator.js, and the \<open>lowercase\<close> setter of Mongoose, on ASCII:
  \<open>trim\<close> strips white space from both ends, \<open>escape\<close> replaces the ampersand, the two
  quotes, the angle brackets, the slash, the backslash and the backquote by their
  entities. \<open>string_of_time\<close> is the decimal string that \<open>Date.now() + '-'\<close> starts with.
\<close>

definition is_space :: "char \<Rightarrow> bool" where
  "is_space c = (c \<in> set [CHR '' '', CHR 0x09, CHR 0x0A, CHR 0x0B, CHR 0x0C, CHR 0x0D])"

definition trim :: "string \<Rightarrow> string" where
  "trim s = rev (dropWhile is_space (rev (dropWhile is_space s)))"

definition escape_char :: "char \<Rightarrow> string" where
  "escape_char c =
     (if c = CHR ''&'' then ''&amp;''
      else if c = CHR 0x22 then ''&quot;''
      else if c = CHR 0x27 then ''&#x27;''
      else if c = CHR ''<'' then ''&lt;''
      else if c = CHR ''>'' then ''&gt;''
      else if c = CHR ''/'' then ''&#x2F;''
      else if c = CHR 0x5C then ''&#x5C;''
      else if c = CHR 0x60 then ''&#96;''
      else [c])"

definition escape :: "string \<Rightarrow> string" where
  "escape s = concat (map escape_char s)"

definition lower_char :: "char \<Rightarrow> char" where
  "lower_char c =
     (case map_of (zip ''ABCDEFGHIJKLMNOPQRSTUVWXYZ'' ''abcdefghijklmnopqrstuvwxyz'') c of
        Some l \<Rightarrow> l
      | None \<Rightarrow> c)"

definition lowercase :: "string \<Rightarrow> string" where
  "lowercase s = map lower_char s"

fun digits :: "nat \<Rightarrow> string" where
  "digits n =
     (if n < 10 then [''0123456789'' ! n]
      else digits (n div 10) @ [''0123456789'' ! (n mod 10)])"

declare digits.simps [simp del]

definition string_of_time :: "time \<Rightarrow> string" where
  "string_of_time t = (if t < 0 then CHR ''-'' # digits (nat (- t)) else digits (nat t))"

section \<open>Mongoose queries\<close>

text \<open>
  \<open>.sort({ key: -1 })\<close>: all documents, the largest key first. Documents with equal keys
  come in the order this function gives them; MongoDB promises none.
\<close>

definition sort_desc :: "('a \<Rightarrow> int) \<Rightarrow> 'a list \<Rightarrow> 'a list" where
  "sort_desc key xs = sort_key (\<lambda>x. - key x) xs"

text \<open>\<open>Model.findOne().sort({ key: -1 })\<close>: the first document of that order, or \<open>null\<close>.\<close>

definition findOne_sort_desc :: "('a \<Rightarrow> int) \<Rightarrow> 'a list \<Rightarrow> 'a option" where
  "findOne_sort_desc key xs = (case sort_desc key xs of [] \<Rightarrow> None | x # _ \<Rightarrow> Some x)"

text \<open>
  \<open>findOneAndUpdate\<close> and \<open>findByIdAndUpdate\<close> with \<open>{ new: true }\<close>: the first document the
  filter matches is replaced by its update; the result is the updated document, or \<open>null\<close>
  (\<open>None\<close>) when nothing matches.
\<close>

fun update_first :: "('a \<Rightarrow> bool) \<Rightarrow> ('a \<Rightarrow> 'a) \<Rightarrow> 'a list \<Rightarrow> ('a \<times> 'a list) option" where
  "update_first P u [] = None"
| "update_first P u (x # xs) =
     (if P x then Some (u x, u x # xs)
      else (case update_first P u xs of
              None \<Rightarrow> None
            | Some (y, ys) \<Rightarrow> Some (y, x # ys)))"

text \<open>\<open>findOneAndDelete\<close>: the first matching document is removed and returned.\<close>

fun delete_first :: "('a \<Rightarrow> bool) \<Rightarrow> 'a list \<Rightarrow> ('a \<times> 'a list) option" where
  "delete_first P [] = None"
| "delete_first P (x # xs) =
     (if P x then Some (x, xs)
      else (case delete_first P xs of
              None \<Rightarrow> None
            | Some (y, ys) \<Rightarrow> Some (y, x # ys)))"

text \<open>
  \<open>deleteOne\<close> removes the first matching document, if there is one, and answers with
  \<open>{ acknowledged, deletedCount }\<close> (the result the handler reads; Mongoose 6 and later).
  The connection string asks for the write concern \<open>w=majority\<close>, under which every write
  is acknowledged.
\<close>

record delete_result =
  acknowledged :: bool
  deletedCount :: nat

definition deleteOne :: "('a \<Rightarrow> bool) \<Rightarrow> 'a list \<Rightarrow> delete_result \<times> 'a list" where
  "deleteOne P xs =
     (case delete_first P xs of
        None \<Rightarrow> (\<lparr>acknowledged = True, deletedCount = 0\<rparr>, xs)
      | Some (y, ys) \<Rightarrow> (\<lparr>acknowledged = True, deletedCount = 1\<rparr>, ys))"

text \<open>
  The \<open>required\<close> validator of a String path, run by \<open>save\<close>: it fails on a missing value
  and on the empty string.
\<close>

definition required :: "string option \<Rightarrow> bool" where
  "required v = (case v of None \<Rightarrow> False | Some s \<Rightarrow> s \<noteq> [])"

definition validation_failed :: "string \<Rightarrow> js_error" where
  "validation_failed model = JsError ''ValidationError'' (model @ '' validation failed'')"

definition cast_failed :: "string \<Rightarrow> js_error" where
  "cast_failed type = JsError ''CastError'' (''Cast to '' @ type @ '' failed'')"

text \<open>
  \<open>new Project({ ...req.body, id, img, updatedAt })\<close> followed by the validation of \<open>save\<close>,
  which fails on a missing required field and on a \<open>createdAt\<close> that is no \<open>Date\<close>.
  The fields written after the spread replace the body's and are arguments here; \<open>t\<close> is
  the clock, for the default of \<open>createdAt\<close>. The schema trims \<open>title\<close>.
\<close>

definition new_Project :: "time \<Rightarrow> int \<Rightarrow> string option \<Rightarrow> time \<Rightarrow> body \<Rightarrow> js_error + project" where
  "new_Project t newId img updated obj =
     (let title = map_option trim (b_title obj) in
      if required title \<and> required (b_category obj) \<and> required img
         \<and> date_ok (b_createdAt obj) then
        Inr \<lparr>p_id = newId,
             p_title = (case title of Some s \<Rightarrow> s | None \<Rightarrow> []),
             p_client = b_client obj,
             p_category = (case b_category obj of Some s \<Rightarrow> s | None \<Rightarrow> []),
             p_img = (case img of Some s \<Rightarrow> s | None \<Rightarrow> []),
             p_description = b_description obj,
             p_technologies = (case b_technologies obj of Some ts \<Rightarrow> ts | None \<Rightarrow> []),
             p_createdAt = (case b_createdAt obj of Some c \<Rightarrow> c | None \<Rightarrow> t),
             p_updatedAt = updated\<rparr>
      else Inl (validation_failed ''Project''))"

text \<open>
  \<open>new Feedback(req.body)\<close> followed by the validation of \<open>save\<close>. \<open>approved\<close> and
  \<open>createdAt\<close> take the body's value when it has one and the schema's default otherwise.
\<close>

definition new_Feedback :: "time \<Rightarrow> oid \<Rightarrow> body \<Rightarrow> js_error + feedback" where
  "new_Feedback t i obj =
     (let name = map_option trim (b_name obj);
          role = map_option trim (b_role obj);
          company = map_option trim (b_company obj);
          email = map_option (lowercase \<circ> trim) (b_email obj) in
      if required name \<and> required role \<and> required company \<and> required email
         \<and> required (b_subject obj) \<and> required (b_message obj)
         \<and> date_ok (b_createdAt obj) then
        Inr \<lparr>f_oid = i,
             f_name = (case name of Some s \<Rightarrow> s | None \<Rightarrow> []),
             f_role = (case role of Some s \<Rightarrow> s | None \<Rightarrow> []),
             f_company = (case company of Some s \<Rightarrow> s | None \<Rightarrow> []),
             f_email = (case email of Some s \<Rightarrow> s | None \<Rightarrow> []),
             f_subject = (case b_subject obj of Some s \<Rightarrow> s | None \<Rightarrow> []),
             f_message = (case b_message obj of Some s \<Rightarrow> s | None \<Rightarrow> []),
             f_approved = (case b_approved obj of Some a \<Rightarrow> a | None \<Rightarrow> False),
             f_createdAt = (case b_createdAt obj of Some c \<Rightarrow> c | None \<Rightarrow> t)\<rparr>
      else Inl (validation_failed ''Feedback''))"

definition new_HireMe :: "time \<Rightarrow> body \<Rightarrow> js_error + hire_me" where
  "new_HireMe t obj =
     (let name = map_option trim (b_name obj);
          email = map_option (lowercase \<circ> trim) (b_email obj) in
      if required name \<and> required email \<and> required (b_projectType obj)
         \<and> required (b_projectDescription obj) \<and> date_ok (b_createdAt obj) then
        Inr \<lparr>h_name = (case name of Some s \<Rightarrow> s | None \<Rightarrow> []),
             h_email = (case email of Some s \<Rightarrow> s | None \<Rightarrow> []),
             h_company = b_company obj,
             h_projectType = (case b_projectType obj of Some s \<Rightarrow> s | None \<Rightarrow> []),
             h_projectDescription = (case b_projectDescription obj of Some s \<Rightarrow> s | None \<Rightarrow> []),
             h_budget = b_budget obj,
             h_timeframe = b_timeframe obj,
             h_createdAt = (case b_createdAt obj of Some c \<Rightarrow> c | None \<Rightarrow> t)\<rparr>
      else Inl (validation_failed ''HireMe''))"

text \<open>
  The update document \<open>{ ...req.body, updatedAt: new Date() }\<close> of \<open>PUT /api/projects/:id\<close>,
  applied to a stored project: every key of the body that the schema knows is set, and
  \<open>updatedAt\<close>, written after the spread, is the clock. (The cast of the update fails
  before, in the handler, when the body's \<open>createdAt\<close> is no \<open>Date\<close>.)
\<close>

definition set_fields :: "body \<Rightarrow> time \<Rightarrow> project \<Rightarrow> project" where
  "set_fields obj t p =
     \<lparr>p_id = (case b_id obj of Some v \<Rightarrow> v | None \<Rightarrow> p_id p),
      p_title = (case b_title obj of Some v \<Rightarrow> trim v | None \<Rightarrow> p_title p),
      p_client = (case b_client obj of Some v \<Rightarrow> Some v | None \<Rightarrow> p_client p),
      p_category = (case b_category obj of Some v \<Rightarrow> v | None \<Rightarrow> p_category p),
      p_img = (case b_img obj of Some v \<Rightarrow> v | None \<Rightarrow> p_img p),
      p_description = (case b_description obj of Some v \<Rightarrow> Some v | None \<Rightarrow> p_description p),
      p_technologies = (case b_technologies obj of Some v \<Rightarrow> v | None \<Rightarrow> p_technologies p),
      p_createdAt = (case b_createdAt obj of Some v \<Rightarrow> v | None \<Rightarrow> p_createdAt p),
      p_updatedAt = t\<rparr>"

section \<open>Validation middleware\<close>

text \<open>
  A chain of express-validator adds one error for its field when its validator fails, and
  its sanitizers rewrite the field in \<open>req.body\<close>. \<open>optional()\<close> skips an absent field.
  \<open>isObject\<close>, \<open>isArray\<close> and \<open>isNumeric\<close> hold of every value of the field's type. The
  errors are listed by field name, in the order of the chains.
\<close>

definition notEmpty :: "string option \<Rightarrow> bool" where
  "notEmpty v = (case v of None \<Rightarrow> False | Some s \<Rightarrow> s \<noteq> [])"

definition check :: "string \<Rightarrow> bool \<Rightarrow> string list" where
  "check field ok = (if ok then [] else [field])"

definition trim_escape :: "string option \<Rightarrow> string option" where
  "trim_escape v = map_option (escape \<circ> trim) v"

definition validateProject :: "body \<Rightarrow> string list \<times> body" where
  "validateProject b =
     (check ''title'' (notEmpty (b_title b))
      @ check ''category'' (notEmpty (b_category b))
      @ check ''img'' (notEmpty (b_img b)),
      b\<lparr>b_title := trim_escape (b_title b),
        b_category := trim_escape (b_category b),
        b_description := trim_escape (b_description b)\<rparr>)"

definition validateFeedback :: "lib \<Rightarrow> body \<Rightarrow> string list \<times> body" where
  "validateFeedback l b =
     (check ''name'' (notEmpty (b_name b))
      @ check ''role'' (notEmpty (b_role b))
      @ check ''company'' (notEmpty (b_company b))
      @ check ''email'' (case b_email b of None \<Rightarrow> False | Some e \<Rightarrow> isEmail l e)
      @ check ''subject'' (notEmpty (b_subject b))
      @ check ''message'' (notEmpty (b_message b)),
      b\<lparr>b_name := trim_escape (b_name b),
        b_role := trim_escape (b_role b),
        b_company := trim_escape (b_company b),
        b_email := map_option (normalizeEmail l) (b_email b),
        b_subject := trim_escape (b_subject b),
        b_message := trim_escape (b_message b)\<rparr>)"

definition validateHireMe :: "lib \<Rightarrow> body \<Rightarrow> string list \<times> body" where
  "validateHireMe l b =
     (check ''name'' (notEmpty (b_name b))
      @ check ''email'' (case b_email b of None \<Rightarrow> False | Some e \<Rightarrow> isEmail l e)
      @ check ''projectType'' (notEmpty (b_projectType b))
      @ check ''projectDescription'' (notEmpty (b_projectDescription b)),
      b\<lparr>b_name := trim_escape (b_name b),
        b_email := map_option (normalizeEmail l) (b_email b),
        b_company := trim_escape (b_company b),
        b_projectType := trim_escape (b_projectType b),
        b_projectDescription := trim_escape (b_projectDescription b),
        b_timeframe := trim_escape (b_timeframe b)\<rparr>)"

section \<open>Upload middleware\<close>

definition allowedTypes :: "string list" where
  "allowedTypes = [''image/jpeg'', ''image/png'', ''image/gif'']"

definition fileFilter :: "upload_part \<Rightarrow> js_error + bool" where
  "fileFilter file =
     (if mimetype file \<in> set allowedTypes then Inr True
      else Inl (JsError ''Error'' ''Invalid file type. Only JPEG, PNG and GIF allowed.''))"

definition fileSize :: nat where
  "fileSize = 5 * 1024 * 1024"

text \<open>\<open>storage.filename\<close>: \<open>Date.now() + '-' + file.originalname\<close>.\<close>

definition filename :: "env \<Rightarrow> upload_part \<Rightarrow> string" where
  "filename e file = string_of_time (now e) @ ''-'' @ originalname file"

text \<open>
  \<open>upload.single('img')\<close>: a request carries no file or one. A file under another field
  name, a file the filter refuses and a file longer than the limit each end the request
  with an error handed to \<open>next\<close>; so does a file of exactly the limit under a multer that
  refuses it. Otherwise \<open>req.file\<close> is the stored file (here its \<open>filename\<close>), or
  undefined when no file came.
\<close>

definition upload_single :: "lib \<Rightarrow> env \<Rightarrow> upload_part option \<Rightarrow> js_error + string option" where
  "upload_single l e part =
     (case part of
        None \<Rightarrow> Inr None
      | Some file \<Rightarrow>
          if fieldname file \<noteq> ''img'' then Inl (JsError ''MulterError'' ''Unexpected field'')
          else (case fileFilter file of
                  Inl err \<Rightarrow> Inl err
                | Inr _ \<Rightarrow>
                    if size_bytes file > fileSize
                       \<or> (size_bytes file = fileSize \<and> refuses_at_limit l)
                    then Inl (JsError ''MulterError'' ''File too large'')
                    else Inr (Some (filename e file))))"

section \<open>Route handlers\<close>

text \<open>
  Every handler is \<open>try { ... } catch (err) { next(err); }\<close>. Only the handler of
  \<open>POST /api/projects\<close> in \<open>index.js\<close> declares the parameter \<open>next\<close>; in every other
  handler \<open>next\<close> is an unbound identifier, so the call in the \<open>catch\<close> block throws a
  \<open>ReferenceError\<close> and the handler's promise is rejected with it.
\<close>

definition catch_next :: "js_error \<Rightarrow> outcome" where
  "catch_next err = Next err"

definition next_is_not_defined :: js_error where
  "next_is_not_defined = JsError ''ReferenceError'' ''next is not defined''"

definition catch_unbound_next :: "js_error \<Rightarrow> outcome" where
  "catch_unbound_next err = Rejected next_is_not_defined"

text \<open>
  The \<open>try\<close> block gives an error (\<open>Inl\<close>) or a response with the database it leaves; an
  error leaves the database as it was, since every handler writes with its last call.
\<close>

definition try_catch :: "(js_error \<Rightarrow> outcome) \<Rightarrow> db \<Rightarrow> js_error + response \<times> db \<Rightarrow> outcome \<times> db" where
  "try_catch catch d r = (case r of Inl err \<Rightarrow> (catch err, d) | Inr (res, d') \<Rightarrow> (Sent res, d'))"

definition get_projects :: "env \<Rightarrow> request \<Rightarrow> db \<Rightarrow> outcome \<times> db" where
  "get_projects e req d =
     try_catch catch_unbound_next d
       (case fault e 0 of
          Some err \<Rightarrow> Inl err
        | None \<Rightarrow> Inr (Response 200 (ProjectDocs (sort_desc p_createdAt (projects d))), d))"

definition get_projects_id :: "lib \<Rightarrow> env \<Rightarrow> request \<Rightarrow> db \<Rightarrow> outcome \<times> db" where
  "get_projects_id l e req d =
     try_catch catch_unbound_next d
       (case castNumber l (params_id req) of
          None \<Rightarrow> Inl (cast_failed ''Number'')
        | Some n \<Rightarrow>
            (case fault e 0 of
               Some err \<Rightarrow> Inl err
             | None \<Rightarrow>
                 (case find (\<lambda>p. p_id p = n) (projects d) of
                    None \<Rightarrow> Inr (Response 404 (Message ''Project not found''), d)
                  | Some project \<Rightarrow> Inr (Response 200 (ProjectDoc project), d))))"

text \<open>
  \<open>POST /api/projects\<close> of \<open>index.js\<close>: \<open>upload.single('img')\<close>, then \<open>validateProject\<close>, then
  the handler. The handler awaits twice, \<open>Project.findOne().sort({ id: -1 })\<close> and
  \<open>project.save()\<close>, and nothing keeps other requests from writing in between. So it is
  two steps. \<open>post_projects_read\<close> is the request up to the document it is about to save,
  on the database as \<open>findOne\<close> finds it: \<open>Inl\<close> when the request ends before, \<open>Inr\<close> with
  the result of \<open>new Project\<close> otherwise. \<open>post_projects_save\<close> is \<open>save\<close> and what follows,
  on the database as \<open>save\<close> finds it. Reading \<open>req.file.filename\<close> when no file came
  throws a \<open>TypeError\<close> (the wording of its message is the engine's).
\<close>

definition post_projects_read :: "lib \<Rightarrow> env \<Rightarrow> request \<Rightarrow> db \<Rightarrow> outcome + (js_error + project)" where
  "post_projects_read l e req d =
     (case upload_single l e (upload req) of
        Inl err \<Rightarrow> Inl (Next err)
      | Inr file \<Rightarrow>
          (case validateProject (body req) of
             (errors, b) \<Rightarrow>
               if errors \<noteq> [] then Inl (Sent (Response 400 (ValidationErrors errors)))
               else
                 (case fault e 0 of
                    Some err \<Rightarrow> Inl (catch_next err)
                  | None \<Rightarrow>
                      (let lastProject = findOne_sort_desc p_id (projects d);
                           newId = (case lastProject of Some p \<Rightarrow> plus_one (p_id p) | None \<Rightarrow> 1)
                       in case file of
                            None \<Rightarrow>
                              Inl (catch_next
                                (JsError ''TypeError'' ''Cannot read properties of undefined''))
                          | Some name \<Rightarrow>
                              Inr (new_Project (now e) newId
                                     (Some (''/uploads/projects/'' @ name)) (now e) b)))))"

definition post_projects_save :: "(js_error \<Rightarrow> outcome) \<Rightarrow> env \<Rightarrow> js_error + project \<Rightarrow> db \<Rightarrow> outcome \<times> db" where
  "post_projects_save catch e doc d =
     (case doc of
        Inl err \<Rightarrow> (catch err, d)
      | Inr project \<Rightarrow>
          (case fault e 1 of
             Some err \<Rightarrow> (catch err, d)
           | None \<Rightarrow>
               (Sent (Response 201 (ProjectDoc project)),
                d\<lparr>projects := projects d @ [project]\<rparr>)))"

text \<open>The request when no other request writes between its two steps.\<close>

definition post_projects :: "lib \<Rightarrow> env \<Rightarrow> request \<Rightarrow> db \<Rightarrow> outcome \<times> db" where
  "post_projects l e req d =
     (case post_projects_read l e req d of
        Inl out \<Rightarrow> (out, d)
      | Inr doc \<Rightarrow> post_projects_save catch_next e doc d)"

text \<open>
  \<open>POST /api/projects\<close> of the earlier variant of the file (\<open>part_000\<close>), in the same two
  steps: no upload, \<open>img\<close> is the body's, the schema has no \<open>client\<close>, and \<open>next\<close> is unbound.
\<close>

definition post_projects_part_000_read :: "env \<Rightarrow> request \<Rightarrow> db \<Rightarrow> outcome + (js_error + project)" where
  "post_projects_part_000_read e req d =
     (case validateProject (body req) of
        (errors, b) \<Rightarrow>
          if errors \<noteq> [] then Inl (Sent (Response 400 (ValidationErrors errors)))
          else
            (case fault e 0 of
               Some err \<Rightarrow> Inl (catch_unbound_next err)
             | None \<Rightarrow>
                 (let lastProject = findOne_sort_desc p_id (projects d);
                      newId = (case lastProject of Some p \<Rightarrow> plus_one (p_id p) | None \<Rightarrow> 1)
                  in Inr (new_Project (now e) newId (b_img b) (now e) (b\<lparr>b_client := None\<rparr>)))))"

definition post_projects_part_000 :: "env \<Rightarrow> request \<Rightarrow> db \<Rightarrow> outcome \<times> db" where
  "post_projects_part_000 e req d =
     (case post_projects_part_000_read e req d of
        Inl out \<Rightarrow> (out, d)
      | Inr doc \<Rightarrow> post_projects_save catch_unbound_next e doc d)"

definition put_projects_id :: "lib \<Rightarrow> env \<Rightarrow> request \<Rightarrow> db \<Rightarrow> outcome \<times> db" where
  "put_projects_id l e req d =
     (case validateProject (body req) of
        (errors, b) \<Rightarrow>
          try_catch catch_unbound_next d
            (if errors \<noteq> [] then Inr (Response 400 (ValidationErrors errors), d)
             else
               (case castNumber l (params_id req) of
                  None \<Rightarrow> Inl (cast_failed ''Number'')
                | Some n \<Rightarrow>
                    if \<not> date_ok (b_createdAt b) then Inl (cast_failed ''date'')
                    else
                      (case fault e 0 of
                         Some err \<Rightarrow> Inl err
                       | None \<Rightarrow>
                           (case update_first (\<lambda>p. p_id p = n) (set_fields b (now e)) (projects d) of
                              None \<Rightarrow> Inr (Response 404 (Message ''Project not found''), d)
                            | Some (project, ps) \<Rightarrow>
                                Inr (Response 200 (ProjectDoc project), d\<lparr>projects := ps\<rparr>))))))"

definition delete_projects_id :: "lib \<Rightarrow> env \<Rightarrow> request \<Rightarrow> db \<Rightarrow> outcome \<times> db" where
  "delete_projects_id l e req d =
     try_catch catch_unbound_next d
       (case castNumber l (params_id req) of
          None \<Rightarrow> Inl (cast_failed ''Number'')
        | Some n \<Rightarrow>
            (case fault e 0 of
               Some err \<Rightarrow> Inl err
             | None \<Rightarrow>
                 (case delete_first (\<lambda>p. p_id p = n) (projects d) of
                    None \<Rightarrow> Inr (Response 404 (Message ''Project not found''), d)
                  | Some (project, ps) \<Rightarrow>
                      Inr (Response 200 (Message ''Project deleted successfully''),
                           d\<lparr>projects := ps\<rparr>))))"

text \<open>
  \<open>save\<close> of a new Feedback document inserts it; MongoDB refuses an \<open>_id\<close> that the
  collection already holds.
\<close>

definition duplicate_key :: js_error where
  "duplicate_key = JsError ''MongoServerError'' ''E11000 duplicate key error''"

definition post_feedback :: "lib \<Rightarrow> env \<Rightarrow> request \<Rightarrow> db \<Rightarrow> outcome \<times> db" where
  "post_feedback l e req d =
     (case validateFeedback l (body req) of
        (errors, b) \<Rightarrow>
          try_catch catch_unbound_next d
            (if errors \<noteq> [] then Inr (Response 400 (ValidationErrors errors), d)
             else
               (case new_Feedback (now e) (newObjectId e) b of
                  Inl err \<Rightarrow> Inl err
                | Inr feedback \<Rightarrow>
                    (case fault e 0 of
                       Some err \<Rightarrow> Inl err
                     | None \<Rightarrow>
                         if f_oid feedback \<in> set (map f_oid (feedbacks d)) then Inl duplicate_key
                         else Inr (Response 201 (FeedbackDoc feedback),
                                   d\<lparr>feedbacks := feedbacks d @ [feedback]\<rparr>)))))"

definition get_feedback :: "env \<Rightarrow> request \<Rightarrow> db \<Rightarrow> outcome \<times> db" where
  "get_feedback e req d =
     try_catch catch_unbound_next d
       (case fault e 0 of
          Some err \<Rightarrow> Inl err
        | None \<Rightarrow> Inr (Response 200 (FeedbackDocs (sort_desc f_createdAt (feedbacks d))), d))"

definition post_hire_me :: "lib \<Rightarrow> env \<Rightarrow> request \<Rightarrow> db \<Rightarrow> outcome \<times> db" where
  "post_hire_me l e req d =
     (case validateHireMe l (body req) of
        (errors, b) \<Rightarrow>
          try_catch catch_unbound_next d
            (if errors \<noteq> [] then Inr (Response 400 (ValidationErrors errors), d)
             else
               (case new_HireMe (now e) b of
                  Inl err \<Rightarrow> Inl err
                | Inr hireRequest \<Rightarrow>
                    (case fault e 0 of
                       Some err \<Rightarrow> Inl err
                     | None \<Rightarrow>
                         Inr (Response 201 (HireMeDoc hireRequest),
                              d\<lparr>hireRequests := hireRequests d @ [hireRequest]\<rparr>)))))"

definition get_hire_me :: "env \<Rightarrow> request \<Rightarrow> db \<Rightarrow> outcome \<times> db" where
  "get_hire_me e req d =
     try_catch catch_unbound_next d
       (case fault e 0 of
          Some err \<Rightarrow> Inl err
        | None \<Rightarrow> Inr (Response 200 (HireMeDocs (sort_desc h_createdAt (hireRequests d))), d))"

text \<open>\<open>findByIdAndUpdate(req.params.id, { approved: true }, { new: true })\<close>.\<close>

definition put_feedback_approve :: "lib \<Rightarrow> env \<Rightarrow> request \<Rightarrow> db \<Rightarrow> outcome \<times> db" where
  "put_feedback_approve l e req d =
     try_catch catch_unbound_next d
       (case castObjectId l (params_id req) of
          None \<Rightarrow> Inl (cast_failed ''ObjectId'')
        | Some i \<Rightarrow>
            (case fault e 0 of
               Some err \<Rightarrow> Inl err
             | None \<Rightarrow>
                 (case update_first (\<lambda>f. f_oid f = i) (\<lambda>f. f\<lparr>f_approved := True\<rparr>) (feedbacks d) of
                    None \<Rightarrow> Inr (Response 404 (Message ''Feedback not found''), d)
                  | Some (feedback, fs) \<Rightarrow>
                      Inr (Response 200 (FeedbackDoc feedback), d\<lparr>feedbacks := fs\<rparr>))))"

text \<open>
  \<open>DELETE /api/feedback/:id/delete\<close>: the variable \<open>feedback\<close> holds the result of
  \<open>deleteOne\<close>, and the handler answers 404 when its \<open>acknowledged\<close> is false.
\<close>

definition delete_feedback :: "lib \<Rightarrow> env \<Rightarrow> request \<Rightarrow> db \<Rightarrow> outcome \<times> db" where
  "delete_feedback l e req d =
     try_catch catch_unbound_next d
       (case castObjectId l (params_id req) of
          None \<Rightarrow> Inl (cast_failed ''ObjectId'')
        | Some i \<Rightarrow>
            (case fault e 0 of
               Some err \<Rightarrow> Inl err
             | None \<Rightarrow>
                 (case deleteOne (\<lambda>f. f_oid f = i) (feedbacks d) of
                    (feedback, fs) \<Rightarrow>
                      if \<not> acknowledged feedback
                      then Inr (Response 404 (Message ''Feedback not found''), d\<lparr>feedbacks := fs\<rparr>)
                      else Inr (Response 200 (DeleteResult (acknowledged feedback) (deletedCount feedback)),
                                d\<lparr>feedbacks := fs\<rparr>))))"

section \<open>The application\<close>

datatype route =
    GET_projects
  | GET_projects_id
  | POST_projects
  | PUT_projects_id
  | DELETE_projects_id
  | POST_feedback
  | GET_feedback
  | POST_hire_me
  | GET_hire_me
  | PUT_feedback_approve
  | DELETE_feedback

fun handler :: "lib \<Rightarrow> route \<Rightarrow> env \<Rightarrow> request \<Rightarrow> db \<Rightarrow> outcome \<times> db" where
  "handler l GET_projects = get_projects"
| "handler l GET_projects_id = get_projects_id l"
| "handler l POST_projects = post_projects l"
| "handler l PUT_projects_id = put_projects_id l"
| "handler l DELETE_projects_id = delete_projects_id l"
| "handler l POST_feedback = post_feedback l"
| "handler l GET_feedback = get_feedback"
| "handler l POST_hire_me = post_hire_me l"
| "handler l GET_hire_me = get_hire_me"
| "handler l PUT_feedback_approve = put_feedback_approve l"
| "handler l DELETE_feedback = delete_feedback l"

definition errorHandler :: "js_error \<Rightarrow> response" where
  "errorHandler err = Response 500 (Failure ''Something went wrong!'' (err_message err))"

text \<open>
  What the client receives. An error handed to \<open>next\<close> reaches \<open>errorHandler\<close>, the only
  error middleware. A rejected handler promise reaches it under Express 5; under Express 4
  nothing catches the rejection and no response is sent.
\<close>

definition respond :: "bool \<Rightarrow> outcome \<Rightarrow> response option" where
  "respond v5 out =
     (case out of
        Sent res \<Rightarrow> Some res
      | Next err \<Rightarrow> Some (errorHandler err)
      | Rejected err \<Rightarrow> if v5 then Some (errorHandler err) else None)"

definition app :: "lib \<Rightarrow> route \<Rightarrow> env \<Rightarrow> request \<Rightarrow> db \<Rightarrow> response option \<times> db" where
  "app l r e req d = (case handler l r e req d of (out, d') \<Rightarrow> (respond (express5 l) out, d'))"

section \<open>Orders of a listing\<close>

definition descending :: "time list \<Rightarrow> bool" where
  "descending ts = sorted_wrt (\<ge>) ts"

definition strictly_descending :: "time list \<Rightarrow> bool" where
  "strictly_descending ts = sorted_wrt (>) ts"

section \<open>Concrete requests and states\<close>

text \<open>
  A stand-in for the library, used where a theorem is run on a concrete request: an
  address is an email when it has an \<open>@\<close>, normalising lowers its case, an ObjectId is a
  string of 24 characters, a number is a string of decimal digits, Express is version 4
  and multer refuses a file of exactly the limit.
\<close>

definition digit_value :: "char \<Rightarrow> nat option" where
  "digit_value c = map_of (zip ''0123456789'' [0, 1, 2, 3, 4, 5, 6, 7, 8, 9]) c"

fun decimal :: "nat \<Rightarrow> string \<Rightarrow> nat option" where
  "decimal n [] = Some n"
| "decimal n (c # cs) =
     (case digit_value c of None \<Rightarrow> None | Some v \<Rightarrow> decimal (10 * n + v) cs)"

definition demo_lib :: lib where
  "demo_lib =
     \<lparr>isEmail = (\<lambda>s. CHR ''@'' \<in> set s),
      normalizeEmail = lowercase,
      castObjectId = (\<lambda>s. if length s = 24 then Some s else None),
      castNumber = (\<lambda>s. if s = [] then None else map_option int (decimal 0 s)),
      express5 = False,
      refuses_at_limit = True\<rparr>"

text \<open>A request handled at time \<open>t\<close> with the database answering every call.\<close>

definition at_time :: "time \<Rightarrow> env" where
  "at_time t = \<lparr>now = t, fault = (\<lambda>k. None), newObjectId = ''65f000000000000000000001''\<rparr>"

text \<open>The same with the first database call failing.\<close>

definition connection_lost :: js_error where
  "connection_lost = JsError ''MongoNetworkError'' ''connection lost''"

definition db_down :: "time \<Rightarrow> env" where
  "db_down t = (at_time t)\<lparr>fault := (\<lambda>k. Some connection_lost)\<rparr>"

definition empty_body :: body where
  "empty_body =
     \<lparr>b_id = None, b_title = None, b_client = None, b_category = None, b_img = None,
      b_description = None, b_technologies = None, b_createdAt = None, b_updatedAt = None,
      b_name = None, b_role = None, b_company = None, b_email = None, b_subject = None,
      b_message = None, b_approved = None, b_projectType = None,
      b_projectDescription = None, b_budget = None, b_timeframe = None\<rparr>"

definition plain_request :: request where
  "plain_request = \<lparr>params_id = [], body = empty_body, upload = None\<rparr>"

definition png_1KB :: upload_part where
  "png_1KB = \<lparr>fieldname = ''img'', originalname = ''a.png'', mimetype = ''image/png'', size_bytes = 1024\<rparr>"

definition project_A :: body where
  "project_A = empty_body\<lparr>b_title := Some ''A'', b_category := Some ''web''\<rparr>"

text \<open>
  A multipart request for \<open>POST /api/projects\<close> that carries the image as a file and,
  beside it, a text field \<open>img\<close>.
\<close>

definition create_A :: request where
  "create_A = \<lparr>params_id = [], body = project_A\<lparr>b_img := Some ''a.png''\<rparr>, upload = Some png_1KB\<rparr>"

definition stored_project :: "int \<Rightarrow> time \<Rightarrow> project" where
  "stored_project n t =
     \<lparr>p_id = n, p_title = ''A'', p_client = None, p_category = ''web'',
      p_img = ''/uploads/projects/5-a.png'', p_description = None, p_technologies = [],
      p_createdAt = t, p_updatedAt = t\<rparr>"

definition two_projects :: db where
  "two_projects = empty_db\<lparr>projects := [stored_project 1 5, stored_project 3 6]\<rparr>"

definition stored_feedback :: "oid \<Rightarrow> time \<Rightarrow> feedback" where
  "stored_feedback i t =
     \<lparr>f_oid = i, f_name = ''Ann'', f_role = ''CTO'', f_company = ''Acme'',
      f_email = ''ann@acme.io'', f_subject = ''Hello'', f_message = ''Well done'',
      f_approved = False, f_createdAt = t\<rparr>"

text \<open>Two feedback documents created in the same millisecond.\<close>

definition same_instant :: db where
  "same_instant =
     empty_db\<lparr>feedbacks := [stored_feedback ''65f000000000000000000001'' 7,
                              stored_feedback ''65f000000000000000000002'' 7]\<rparr>"

definition feedback_ann :: body where
  "feedback_ann =
     empty_body\<lparr>b_name := Some ''Ann'', b_role := Some ''CTO'', b_company := Some ''Acme'',
       b_email := Some ''ann@acme.io'', b_subject := Some ''Hello'',
       b_message := Some ''Well done''\<rparr>"

definition with_body :: "body \<Rightarrow> request" where
  "with_body b = \<lparr>params_id = [], body = b, upload = None\<rparr>"

definition with_id :: "string \<Rightarrow> body \<Rightarrow> request" where
  "with_id i b = \<lparr>params_id = i, body = b, upload = None\<rparr>"

text \<open>The same clock with another \<open>_id\<close> for the document to create.\<close>

definition at_time' :: "time \<Rightarrow> env" where
  "at_time' t = (at_time t)\<lparr>newObjectId := ''65f000000000000000000002''\<rparr>"

text \<open>\<open>PUT /api/projects/1\<close>, without and with a \<open>createdAt\<close> in the body.\<close>

definition update_A :: request where
  "update_A = with_id ''1'' (project_A\<lparr>b_img := Some ''a.png''\<rparr>)"

definition update_A_backdated :: request where
  "update_A_backdated = with_id ''1'' (project_A\<lparr>b_img := Some ''a.png'', b_createdAt := Some 0\<rparr>)"

definition one_feedback :: db where
  "one_feedback = empty_db\<lparr>feedbacks := [stored_feedback ''65f000000000000000000001'' 7]\<rparr>"

definition approve_first :: request where
  "approve_first = with_id ''65f000000000000000000001'' empty_body"

text \<open>\<open>DELETE /api/feedback/:id/delete\<close> with a well-formed \<open>_id\<close> that no document has.\<close>

definition delete_unknown :: request where
  "delete_unknown = with_id ''65f000000000000000000009'' empty_body"

text \<open>Uploads: a text file, an image of one byte more than 5 MiB.\<close>

definition text_file :: upload_part where
  "text_file = png_1KB\<lparr>originalname := ''a.txt'', mimetype := ''text/plain''\<rparr>"

definition big_png :: upload_part where
  "big_png = png_1KB\<lparr>size_bytes := 5 * 1024 * 1024 + 1\<rparr>"

text \<open>A project creation with a valid image file and no text field \<open>img\<close>.\<close>

definition create_without_img :: request where
  "create_without_img = \<lparr>params_id = [], body = project_A, upload = Some png_1KB\<rparr>"




section \<open>Runs of the service\<close>


section \<open>Sorted queries\<close>

lemma mset_sort_desc: "mset (sort_desc key xs) = mset xs"
  by (simp add: sort_desc_def)


lemma sorted_sort_desc: "sorted_wrt (\<lambda>a b. key a \<ge> key b) (sort_desc key xs)"
proof -
  have "sorted (map (\<lambda>x. - key x) (sort_desc key xs))"
    by (simp add: sort_desc_def)
  then show ?thesis
    by (simp add: sorted_wrt_map)
qed

lemma strict_of_distinct:
  "sorted_wrt (\<lambda>a b. key a \<ge> key b) ys \<Longrightarrow> distinct (map key ys)
   \<Longrightarrow> sorted_wrt (\<lambda>a b. (key a :: int) > key b) ys"
proof (induction ys)
  case Nil
  then show ?case by simp
next
  case (Cons y ys)
  from Cons.prems have le: "\<forall>x \<in> set ys. key x \<le> key y"
    by simp
  from Cons.prems have "key y \<notin> key ` set ys"
    by simp
  with le have "\<forall>x \<in> set ys. key x < key y"
    by (metis image_eqI order_le_less)
  with Cons show ?case by simp
qed

lemma strict_sort_desc:
  assumes "distinct (map key xs)"
  shows "sorted_wrt (\<lambda>a b. key a > key b) (sort_desc key xs)"
proof -
  have "mset (map key (sort_desc key xs)) = mset (map key xs)"
    by (simp add: mset_sort_desc)
  then have "distinct (map key (sort_desc key xs))"
    using assms mset_eq_imp_distinct_iff by blast
  then show ?thesis
    using sorted_sort_desc [of key xs] by (rule strict_of_distinct [rotated])
qed



lemma descending_sort_desc: "descending (map key (sort_desc key xs))"
  using sorted_sort_desc [of key xs] by (simp add: descending_def sorted_wrt_map)

lemma strictly_descending_sort_desc:
  "distinct (map key xs) \<Longrightarrow> strictly_descending (map key (sort_desc key xs))"
  using strict_sort_desc [of key xs] by (simp add: strictly_descending_def sorted_wrt_map)

lemmas eval_strings =
  string_of_time_def digits.simps trim_escape_def trim_def is_space_def escape_def
  escape_char_def lowercase_def lower_char_def

lemmas eval_examples =
  at_time_def at_time'_def db_down_def empty_body_def plain_request_def empty_db_def
  png_1KB_def project_A_def create_A_def stored_project_def two_projects_def
  stored_feedback_def same_instant_def feedback_ann_def with_body_def with_id_def
  demo_lib_def update_A_def update_A_backdated_def one_feedback_def approve_first_def
  delete_unknown_def text_file_def big_png_def create_without_img_def

lemmas eval_feedback =
  post_feedback_def validateFeedback_def check_def notEmpty_def try_catch_def
  catch_unbound_next_def new_Feedback_def required_def date_ok_def valid_date_def Let_def

section \<open>Listing a collection\<close>

lemma list_two_projects:
  "get_projects (at_time 9) plain_request two_projects =
     (Sent (Response 200 (ProjectDocs [stored_project 3 6, stored_project 1 5])), two_projects)"
  by (simp add: get_projects_def try_catch_def sort_desc_def eval_examples)

lemma post_ann_first:
  "post_feedback demo_lib (at_time 7) (with_body feedback_ann) empty_db =
     (Sent (Response 201 (FeedbackDoc (stored_feedback ''65f000000000000000000001'' 7))),
      empty_db\<lparr>feedbacks := [stored_feedback ''65f000000000000000000001'' 7]\<rparr>)"
  by (simp add: eval_feedback eval_strings eval_examples)

lemma post_ann_second:
  "post_feedback demo_lib (at_time' 7) (with_body feedback_ann)
      (empty_db\<lparr>feedbacks := [stored_feedback ''65f000000000000000000001'' 7]\<rparr>) =
     (Sent (Response 201 (FeedbackDoc (stored_feedback ''65f000000000000000000002'' 7))),
      same_instant)"
  by (simp add: eval_feedback eval_strings eval_examples)

lemma list_same_instant:
  "get_feedback (at_time 9) plain_request same_instant =
     (Sent (Response 200 (FeedbackDocs [stored_feedback ''65f000000000000000000001'' 7,
                                        stored_feedback ''65f000000000000000000002'' 7])),
      same_instant)"
  by (simp add: get_feedback_def try_catch_def sort_desc_def eval_examples)

text \<open>
  C2, as the code has it. When the database answers, each of the three list routes
  responds 200 with all the stored documents of its collection (the same documents, each
  as often as it is stored), in descending order of \<open>createdAt\<close>: no document comes before
  one with a later \<open>createdAt\<close>. The order is strictly descending when no two stored
  documents share their \<open>createdAt\<close>.
\<close>

theorem listings_descend:
  assumes "fault e 0 = None"
  shows "(\<exists>docs. get_projects e req d = (Sent (Response 200 (ProjectDocs docs)), d)
            \<and> mset docs = mset (projects d)
            \<and> descending (map p_createdAt docs)
            \<and> (distinct (map p_createdAt (projects d))
                 \<longrightarrow> strictly_descending (map p_createdAt docs)))
       \<and> (\<exists>docs. get_feedback e req d = (Sent (Response 200 (FeedbackDocs docs)), d)
            \<and> mset docs = mset (feedbacks d)
            \<and> descending (map f_createdAt docs)
            \<and> (distinct (map f_createdAt (feedbacks d))
                 \<longrightarrow> strictly_descending (map f_createdAt docs)))
       \<and> (\<exists>docs. get_hire_me e req d = (Sent (Response 200 (HireMeDocs docs)), d)
            \<and> mset docs = mset (hireRequests d)
            \<and> descending (map h_createdAt docs)
            \<and> (distinct (map h_createdAt (hireRequests d))
                 \<longrightarrow> strictly_descending (map h_createdAt docs)))"
  using assms
  by (simp add: get_projects_def get_feedback_def get_hire_me_def try_catch_def
      mset_sort_desc descending_sort_desc strictly_descending_sort_desc)

theorem listings_descend_witness:
  "fault (at_time 9) 0 = None
   \<and> distinct (map p_createdAt (projects two_projects))
   \<and> get_projects (at_time 9) plain_request two_projects =
       (Sent (Response 200 (ProjectDocs [stored_project 3 6, stored_project 1 5])), two_projects)
   \<and> strictly_descending (map p_createdAt [stored_project 3 6, stored_project 1 5])"
proof -
  have f: "fault (at_time 9) 0 = None"
    by (simp add: at_time_def)
  have dist: "distinct (map p_createdAt (projects two_projects))"
    by (simp add: two_projects_def stored_project_def empty_db_def)
  from listings_descend [OF f, of plain_request two_projects] dist list_two_projects
  have "strictly_descending (map p_createdAt [stored_project 3 6, stored_project 1 5])"
    by auto
  with f dist list_two_projects show ?thesis
    by simp
qed

text \<open>
  The order is not always strict: two feedback documents created in the same millisecond
  are both listed, and neither \<open>createdAt\<close> is greater than the other.
\<close>

theorem strictly_descending_counterexample:
  "post_feedback demo_lib (at_time 7) (with_body feedback_ann) empty_db =
     (Sent (Response 201 (FeedbackDoc (stored_feedback ''65f000000000000000000001'' 7))),
      empty_db\<lparr>feedbacks := [stored_feedback ''65f000000000000000000001'' 7]\<rparr>)
   \<and> post_feedback demo_lib (at_time' 7) (with_body feedback_ann)
      (empty_db\<lparr>feedbacks := [stored_feedback ''65f000000000000000000001'' 7]\<rparr>) =
     (Sent (Response 201 (FeedbackDoc (stored_feedback ''65f000000000000000000002'' 7))),
      same_instant)
   \<and> get_feedback (at_time 9) plain_request same_instant =
     (Sent (Response 200 (FeedbackDocs [stored_feedback ''65f000000000000000000001'' 7,
                                        stored_feedback ''65f000000000000000000002'' 7])),
      same_instant)
   \<and> \<not> strictly_descending (map f_createdAt [stored_feedback ''65f000000000000000000001'' 7,
                                                stored_feedback ''65f000000000000000000002'' 7])"
  using post_ann_first post_ann_second list_same_instant
  by (simp add: strictly_descending_def stored_feedback_def)

section \<open>Numbers\<close>

lemma bit_length_le: "bit_length m \<le> k \<longleftrightarrow> m < 2 ^ k"
proof (induction m arbitrary: k rule: bit_length.induct)
  case (1 n)
  show ?case
  proof (cases "n = 0")
    case True
    then show ?thesis by (simp add: bit_length.simps)
  next
    case False
    then have unfold: "bit_length n = Suc (bit_length (n div 2))"
      by (simp add: bit_length.simps)
    show ?thesis
    proof (cases k)
      case 0
      with False unfold show ?thesis by simp
    next
      case (Suc j)
      have "bit_length (n div 2) \<le> j \<longleftrightarrow> n div 2 < 2 ^ j"
        using "1" False by simp
      moreover have "n div 2 < 2 ^ j \<longleftrightarrow> n < 2 ^ Suc j"
        by auto
      ultimately show ?thesis
        using Suc unfold by simp
    qed
  qed
qed

lemma round_magnitude_small: "m < 2 ^ 53 \<Longrightarrow> round_magnitude m = m"
  by (simp add: round_magnitude_def bit_length_le)

lemma bit_length_54: "2 ^ 53 \<le> m \<Longrightarrow> m < 2 ^ 54 \<Longrightarrow> bit_length m = 54"
  using bit_length_le [of m 53] bit_length_le [of m 54] by simp

lemma round_magnitude_2_53: "round_magnitude 9007199254740992 = 9007199254740992"
  using bit_length_54 [of 9007199254740992] by (simp add: round_magnitude_def)


lemma plus_one_exact:
  assumes "- (2 ^ 53) \<le> n" and "n < 2 ^ 53"
  shows "plus_one n = n + 1"
proof (cases "n + 1 < 0")
  case True
  with assms have "nat (- (n + 1)) < 2 ^ 53"
    by simp
  then have "round_magnitude (nat (- (n + 1))) = nat (- (n + 1))"
    by (rule round_magnitude_small)
  with True show ?thesis
    by (simp add: plus_one_def to_Number_def)
next
  case False
  show ?thesis
  proof (cases "n + 1 = 2 ^ 53")
    case True
    then have "nat (n + 1) = 9007199254740992"
      by simp
    with True round_magnitude_2_53 show ?thesis
      by (simp add: plus_one_def to_Number_def)
  next
    case less: False
    with assms False have "nat (n + 1) < 2 ^ 53"
      by simp
    then have "round_magnitude (nat (n + 1)) = nat (n + 1)"
      by (rule round_magnitude_small)
    with False show ?thesis
      by (simp add: plus_one_def to_Number_def)
  qed
qed


section \<open>Creating a project\<close>












lemmas eval_post_projects =
  post_projects_def post_projects_read_def post_projects_save_def post_projects_part_000_def
  post_projects_part_000_read_def upload_single_def fileFilter_def
  allowedTypes_def fileSize_def filename_def validateProject_def check_def notEmpty_def
  try_catch_def catch_next_def catch_unbound_next_def findOne_sort_desc_def sort_desc_def
  new_Project_def required_def date_ok_def valid_date_def plus_one_exact Let_def













section \<open>The first matching document\<close>

lemma update_first_Some:
  "update_first P u xs = Some (y, ys) \<Longrightarrow>
   \<exists>pre x post. xs = pre @ x # post \<and> P x \<and> list_all (\<lambda>z. \<not> P z) pre
      \<and> y = u x \<and> ys = pre @ u x # post"
proof (induction xs arbitrary: y ys)
  case Nil
  then show ?case by simp
next
  case (Cons a xs)
  show ?case
  proof (cases "P a")
    case True
    with Cons.prems have "y = u a" and "ys = u a # xs"
      by auto
    with True show ?thesis
      by (intro exI [of _ "[]"] exI [of _ a] exI [of _ xs]) simp
  next
    case False
    with Cons.prems obtain zs where rec: "update_first P u xs = Some (y, zs)" and ys: "ys = a # zs"
      by (auto split: option.splits)
    from Cons.IH [OF rec] obtain pre x post where
      "xs = pre @ x # post" "P x" "list_all (\<lambda>z. \<not> P z) pre" "y = u x" "zs = pre @ u x # post"
      by blast
    with False ys show ?thesis
      by (intro exI [of _ "a # pre"] exI [of _ x] exI [of _ post]) simp
  qed
qed

lemma update_first_None: "update_first P u xs = None \<longleftrightarrow> list_all (\<lambda>z. \<not> P z) xs"
  by (induction xs) (auto split: option.splits)

lemma update_first_found:
  "x \<in> set xs \<Longrightarrow> P x \<Longrightarrow> \<exists>y ys. update_first P u xs = Some (y, ys)"
  using update_first_None [of P u xs] by (cases "update_first P u xs") (auto simp: list_all_iff)

lemma update_first_split:
  "xs = pre @ x # post \<Longrightarrow> P x \<Longrightarrow> list_all (\<lambda>z. \<not> P z) pre \<Longrightarrow>
   update_first P u xs = Some (u x, pre @ u x # post)"
  by (induction pre arbitrary: xs) auto

lemma delete_first_Some:
  "delete_first P xs = Some (y, ys) \<Longrightarrow>
   \<exists>pre post. xs = pre @ y # post \<and> P y \<and> list_all (\<lambda>z. \<not> P z) pre \<and> ys = pre @ post"
proof (induction xs arbitrary: y ys)
  case Nil
  then show ?case by simp
next
  case (Cons a xs)
  show ?case
  proof (cases "P a")
    case True
    with Cons.prems have "y = a" and "ys = xs"
      by auto
    with True show ?thesis
      by (intro exI [of _ "[]"] exI [of _ xs]) simp
  next
    case False
    with Cons.prems obtain zs where rec: "delete_first P xs = Some (y, zs)" and ys: "ys = a # zs"
      by (auto split: option.splits)
    from Cons.IH [OF rec] obtain pre post where
      "xs = pre @ y # post" "P y" "list_all (\<lambda>z. \<not> P z) pre" "zs = pre @ post"
      by blast
    with False ys show ?thesis
      by (intro exI [of _ "a # pre"] exI [of _ post]) simp
  qed
qed

lemma delete_first_None: "delete_first P xs = None \<longleftrightarrow> list_all (\<lambda>z. \<not> P z) xs"
  by (induction xs) (auto split: option.splits)

section \<open>The clock and \<open>updatedAt\<close>\<close>
















section \<open>Updating a project\<close>










section \<open>Creating feedback\<close>

lemma same_oid_same_doc:
  "distinct (map f_oid fs) \<Longrightarrow> f \<in> set fs \<Longrightarrow> f' \<in> set fs \<Longrightarrow> f_oid f' = f_oid f \<Longrightarrow> f' = f"
  by (auto simp: distinct_map inj_on_def)

lemma new_Feedback_fields:
  assumes "new_Feedback t i b = Inr f"
  shows "f_oid f = i \<and> f_approved f = (b_approved b = Some True)
     \<and> f_createdAt f = (case b_createdAt b of Some c \<Rightarrow> c | None \<Rightarrow> t)"
proof -
  from assms have "f_oid f = i"
    and "f_approved f = (case b_approved b of Some a \<Rightarrow> a | None \<Rightarrow> False)"
    and "f_createdAt f = (case b_createdAt b of Some c \<Rightarrow> c | None \<Rightarrow> t)"
    by (auto simp: new_Feedback_def Let_def split: if_splits)
  then show ?thesis
    by (cases "b_approved b") auto
qed

lemma validateFeedback_approved:
  "validateFeedback l b = (errors, b') \<Longrightarrow> b_approved b' = b_approved b"
  by (auto simp: validateFeedback_def)

lemma post_feedback_created:
  assumes "post_feedback l e req d = (Sent (Response 201 pl), d')"
  shows "\<exists>f. pl = FeedbackDoc f \<and> d' = d\<lparr>feedbacks := feedbacks d @ [f]\<rparr>
           \<and> f_oid f \<notin> set (map f_oid (feedbacks d))
           \<and> f_approved f = (b_approved (body req) = Some True)"
proof -
  obtain errors b where v: "validateFeedback l (body req) = (errors, b)"
    by (cases "validateFeedback l (body req)")
  from assms v obtain f where
    "new_Feedback (now e) (newObjectId e) b = Inr f" "pl = FeedbackDoc f"
    "d' = d\<lparr>feedbacks := feedbacks d @ [f]\<rparr>" "f_oid f \<notin> set (map f_oid (feedbacks d))"
    by (auto simp: post_feedback_def try_catch_def catch_unbound_next_def
        split: if_splits option.splits sum.splits)
  then show ?thesis
    using new_Feedback_fields [of "now e" "newObjectId e" b f] validateFeedback_approved [OF v]
    by auto
qed

text \<open>What each route leaves of the feedback collection.\<close>

lemma post_feedback_feedbacks:
  "post_feedback l e req d = (out, d') \<Longrightarrow>
     feedbacks d' = feedbacks d
     \<or> (\<exists>f. feedbacks d' = feedbacks d @ [f] \<and> f_oid f \<notin> set (map f_oid (feedbacks d)))"
  by (auto simp: post_feedback_def try_catch_def
      split: if_splits option.splits sum.splits prod.splits)

lemma delete_feedback_feedbacks:
  assumes "delete_feedback l e req d = (out, d')"
  shows "feedbacks d' = feedbacks d
     \<or> (\<exists>pre f post. feedbacks d = pre @ f # post \<and> feedbacks d' = pre @ post)"
proof (cases "feedbacks d' = feedbacks d")
  case True
  then show ?thesis by simp
next
  case False
  with assms obtain i y ys where
    "delete_first (\<lambda>f. f_oid f = i) (feedbacks d) = Some (y, ys)" and "feedbacks d' = ys"
    by (auto simp: delete_feedback_def try_catch_def deleteOne_def
        split: option.splits prod.splits if_splits)
  with delete_first_Some [of "\<lambda>f. f_oid f = i" "feedbacks d" y ys] show ?thesis
    by blast
qed

lemma approve_feedbacks:
  assumes "put_feedback_approve l e req d = (out, d')"
  shows "feedbacks d' = feedbacks d
     \<or> (\<exists>pre f post. feedbacks d = pre @ f # post
           \<and> castObjectId l (params_id req) = Some (f_oid f)
           \<and> feedbacks d' = pre @ f\<lparr>f_approved := True\<rparr> # post)"
proof (cases "feedbacks d' = feedbacks d")
  case True
  then show ?thesis by simp
next
  case False
  with assms obtain i y ys where
    i: "castObjectId l (params_id req) = Some i" and
    u: "update_first (\<lambda>f. f_oid f = i) (\<lambda>f. f\<lparr>f_approved := True\<rparr>) (feedbacks d) = Some (y, ys)" and
    d': "feedbacks d' = ys"
    by (auto simp: put_feedback_approve_def try_catch_def
        split: option.splits prod.splits)
  from update_first_Some [OF u] i d' show ?thesis
    by blast
qed

lemma get_projects_feedbacks: "get_projects e req d = (out, d') \<Longrightarrow> feedbacks d' = feedbacks d"
  by (auto simp: get_projects_def try_catch_def split: option.splits)

lemma get_feedback_feedbacks: "get_feedback e req d = (out, d') \<Longrightarrow> feedbacks d' = feedbacks d"
  by (auto simp: get_feedback_def try_catch_def split: option.splits)

lemma get_hire_me_feedbacks: "get_hire_me e req d = (out, d') \<Longrightarrow> feedbacks d' = feedbacks d"
  by (auto simp: get_hire_me_def try_catch_def split: option.splits)

lemma get_projects_id_feedbacks:
  "get_projects_id l e req d = (out, d') \<Longrightarrow> feedbacks d' = feedbacks d"
  by (auto simp: get_projects_id_def try_catch_def split: option.splits)

lemma post_projects_feedbacks:
  "post_projects l e req d = (out, d') \<Longrightarrow> feedbacks d' = feedbacks d"
  by (auto simp: post_projects_def post_projects_save_def
      split: option.splits sum.splits)

lemma put_projects_id_feedbacks:
  "put_projects_id l e req d = (out, d') \<Longrightarrow> feedbacks d' = feedbacks d"
  by (auto simp: put_projects_id_def try_catch_def
      split: if_splits option.splits prod.splits)

lemma delete_projects_id_feedbacks:
  "delete_projects_id l e req d = (out, d') \<Longrightarrow> feedbacks d' = feedbacks d"
  by (auto simp: delete_projects_id_def try_catch_def split: option.splits prod.splits)

lemma post_hire_me_feedbacks:
  "post_hire_me l e req d = (out, d') \<Longrightarrow> feedbacks d' = feedbacks d"
  by (auto simp: post_hire_me_def try_catch_def
      split: if_splits option.splits sum.splits prod.splits)

lemma other_routes_feedbacks:
  assumes "handler l r e req d = (out, d')"
    and "r \<noteq> POST_feedback" and "r \<noteq> PUT_feedback_approve" and "r \<noteq> DELETE_feedback"
  shows "feedbacks d' = feedbacks d"
  using assms
  by (cases r)
    (simp_all add: get_projects_feedbacks get_feedback_feedbacks get_hire_me_feedbacks
      get_projects_id_feedbacks post_projects_feedbacks put_projects_id_feedbacks
      delete_projects_id_feedbacks post_hire_me_feedbacks)

text \<open>No route makes two feedback documents share their \<open>_id\<close>.\<close>

lemma distinct_oids_kept:
  assumes dist: "distinct (map f_oid (feedbacks d))" and h: "handler l r e req d = (out, d')"
  shows "distinct (map f_oid (feedbacks d'))"
proof -
  consider (post) "r = POST_feedback" | (approve) "r = PUT_feedback_approve"
    | (delete) "r = DELETE_feedback"
    | (other) "r \<noteq> POST_feedback" "r \<noteq> PUT_feedback_approve" "r \<noteq> DELETE_feedback"
    by blast
  then show ?thesis
  proof cases
    case post
    with h post_feedback_feedbacks [of l e req d out d'] dist show ?thesis
      by auto
  next
    case approve
    with h approve_feedbacks [of l e req d out d'] dist show ?thesis
      by auto
  next
    case delete
    with h delete_feedback_feedbacks [of l e req d out d'] dist show ?thesis
      by auto
  next
    case other
    with h other_routes_feedbacks [of l r e req d out d'] dist show ?thesis
      by simp
  qed
qed

lemma approved_only_by_approve:
  assumes dist: "distinct (map f_oid (feedbacks d))"
    and h: "handler l r e req d = (out, d')"
    and f: "f \<in> set (feedbacks d)" "\<not> f_approved f"
    and f': "f' \<in> set (feedbacks d')" "f_oid f' = f_oid f" "f_approved f'"
  shows "r = PUT_feedback_approve \<and> castObjectId l (params_id req) = Some (f_oid f)"
proof -
  have old: "f' \<notin> set (feedbacks d)"
    using same_oid_same_doc [OF dist f(1) _ f'(2)] f(2) f'(3) by auto
  consider (post) "r = POST_feedback" | (approve) "r = PUT_feedback_approve"
    | (delete) "r = DELETE_feedback"
    | (other) "r \<noteq> POST_feedback" "r \<noteq> PUT_feedback_approve" "r \<noteq> DELETE_feedback"
    by blast
  then show ?thesis
  proof cases
    case post
    with h post_feedback_feedbacks [of l e req d out d'] old f' f show ?thesis
      by auto
  next
    case approve
    with h approve_feedbacks [of l e req d out d'] old f' obtain pre x post where
      sp: "feedbacks d = pre @ x # post" "castObjectId l (params_id req) = Some (f_oid x)"
        "feedbacks d' = pre @ x\<lparr>f_approved := True\<rparr> # post"
      by auto
    with f' old have "f' = x\<lparr>f_approved := True\<rparr>"
      by auto
    with sp f' approve show ?thesis
      by simp
  next
    case delete
    with h delete_feedback_feedbacks [of l e req d out d'] old f' show ?thesis
      by auto
  next
    case other
    with h other_routes_feedbacks [of l r e req d out d'] old f' show ?thesis
      by auto
  qed
qed

lemma approve_first_same_instant:
  "put_feedback_approve demo_lib (at_time 9) approve_first same_instant =
     (Sent (Response 200 (FeedbackDoc
        ((stored_feedback ''65f000000000000000000001'' 7)\<lparr>f_approved := True\<rparr>))),
      same_instant\<lparr>feedbacks :=
        [(stored_feedback ''65f000000000000000000001'' 7)\<lparr>f_approved := True\<rparr>,
         stored_feedback ''65f000000000000000000002'' 7]\<rparr>)"
  by (simp add: put_feedback_approve_def try_catch_def eval_examples)

lemma post_ann_approved:
  "post_feedback demo_lib (at_time 7) (with_body (feedback_ann\<lparr>b_approved := Some True\<rparr>)) empty_db =
     (Sent (Response 201 (FeedbackDoc
        ((stored_feedback ''65f000000000000000000001'' 7)\<lparr>f_approved := True\<rparr>))),
      empty_db\<lparr>feedbacks :=
        [(stored_feedback ''65f000000000000000000001'' 7)\<lparr>f_approved := True\<rparr>]\<rparr>)"
  by (simp add: eval_feedback eval_strings eval_examples)

text \<open>
  C4, as the code has it. When \<open>POST /api/feedback\<close> answers 201, the created document is
  appended to the collection and its \<open>approved\<close> is the body's: false when the body has no
  \<open>approved\<close> (the default of the schema) or has \<open>approved: false\<close>, true when the body has
  \<open>approved: true\<close>. And of a stored document, no route but the approval of that document
  turns \<open>approved\<close> from false to true: if a document is stored unapproved before a request
  and a document with its \<open>_id\<close> is stored approved after it, then the request went to
  \<open>PUT /api/feedback/:id/approve\<close> with that \<open>_id\<close>. (Stored documents have distinct
  \<open>_id\<close>s; every route keeps that.)
\<close>

theorem feedback_approved_flag:
  "(post_feedback l e req d = (Sent (Response 201 pl), d') \<longrightarrow>
      (\<exists>f. pl = FeedbackDoc f \<and> feedbacks d' = feedbacks d @ [f]
          \<and> f_approved f = (b_approved (body req) = Some True)))
   \<and> (distinct (map f_oid (feedbacks d)) \<and> handler l r e req d = (out, d'')
        \<and> f \<in> set (feedbacks d) \<and> \<not> f_approved f
        \<and> f' \<in> set (feedbacks d'') \<and> f_oid f' = f_oid f \<and> f_approved f'
      \<longrightarrow> r = PUT_feedback_approve \<and> castObjectId l (params_id req) = Some (f_oid f))"
proof (intro conjI impI)
  assume "post_feedback l e req d = (Sent (Response 201 pl), d')"
  from post_feedback_created [OF this]
  show "\<exists>f. pl = FeedbackDoc f \<and> feedbacks d' = feedbacks d @ [f]
          \<and> f_approved f = (b_approved (body req) = Some True)"
    by auto
next
  assume a: "distinct (map f_oid (feedbacks d)) \<and> handler l r e req d = (out, d'')
        \<and> f \<in> set (feedbacks d) \<and> \<not> f_approved f
        \<and> f' \<in> set (feedbacks d'') \<and> f_oid f' = f_oid f \<and> f_approved f'"
  then have "r = PUT_feedback_approve \<and> castObjectId l (params_id req) = Some (f_oid f)"
    by (intro approved_only_by_approve [of d l r e req out d'' f f']) simp_all
  then show "r = PUT_feedback_approve" and "castObjectId l (params_id req) = Some (f_oid f)"
    by simp_all
qed

theorem feedback_approved_flag_witness:
  "post_feedback demo_lib (at_time 7) (with_body feedback_ann) empty_db =
     (Sent (Response 201 (FeedbackDoc (stored_feedback ''65f000000000000000000001'' 7))),
      empty_db\<lparr>feedbacks := [stored_feedback ''65f000000000000000000001'' 7]\<rparr>)
   \<and> b_approved (body (with_body feedback_ann)) = None
   \<and> \<not> f_approved (stored_feedback ''65f000000000000000000001'' 7)
   \<and> distinct (map f_oid (feedbacks same_instant))
   \<and> handler demo_lib PUT_feedback_approve (at_time 9) approve_first same_instant =
     (Sent (Response 200 (FeedbackDoc
        ((stored_feedback ''65f000000000000000000001'' 7)\<lparr>f_approved := True\<rparr>))),
      same_instant\<lparr>feedbacks :=
        [(stored_feedback ''65f000000000000000000001'' 7)\<lparr>f_approved := True\<rparr>,
         stored_feedback ''65f000000000000000000002'' 7]\<rparr>)
   \<and> stored_feedback ''65f000000000000000000001'' 7 \<in> set (feedbacks same_instant)
   \<and> castObjectId demo_lib (params_id approve_first)
       = Some (f_oid (stored_feedback ''65f000000000000000000001'' 7))"
proof -
  let ?f = "stored_feedback ''65f000000000000000000001'' 7"
  let ?d' = "same_instant\<lparr>feedbacks :=
        [?f\<lparr>f_approved := True\<rparr>, stored_feedback ''65f000000000000000000002'' 7]\<rparr>"
  have created: "\<not> f_approved ?f" and none: "b_approved (body (with_body feedback_ann)) = None"
    using feedback_approved_flag [THEN conjunct1, rule_format, OF post_ann_first]
    by (simp_all add: eval_examples)
  have dist: "distinct (map f_oid (feedbacks same_instant))"
    and mem: "?f \<in> set (feedbacks same_instant)"
    and mem': "?f\<lparr>f_approved := True\<rparr> \<in> set (feedbacks ?d')"
    by (simp_all add: same_instant_def empty_db_def stored_feedback_def)
  have h: "handler demo_lib PUT_feedback_approve (at_time 9) approve_first same_instant =
      (Sent (Response 200 (FeedbackDoc (?f\<lparr>f_approved := True\<rparr>))), ?d')"
    using approve_first_same_instant by simp
  have "castObjectId demo_lib (params_id approve_first) = Some (f_oid ?f)"
    using feedback_approved_flag [THEN conjunct2, rule_format,
        of same_instant demo_lib PUT_feedback_approve "at_time 9" approve_first _ ?d' ?f
          "?f\<lparr>f_approved := True\<rparr>"]
      dist h mem mem' created
    by simp
  with post_ann_first created none dist h mem show ?thesis
    by simp
qed

text \<open>
  A body with \<open>approved: true\<close> creates an approved document, with no approval.
\<close>

theorem created_unapproved_counterexample:
  "post_feedback demo_lib (at_time 7) (with_body (feedback_ann\<lparr>b_approved := Some True\<rparr>)) empty_db =
     (Sent (Response 201 (FeedbackDoc
        ((stored_feedback ''65f000000000000000000001'' 7)\<lparr>f_approved := True\<rparr>))),
      empty_db\<lparr>feedbacks :=
        [(stored_feedback ''65f000000000000000000001'' 7)\<lparr>f_approved := True\<rparr>]\<rparr>)
   \<and> f_approved ((stored_feedback ''65f000000000000000000001'' 7)\<lparr>f_approved := True\<rparr>)"
  using post_ann_approved by simp

section \<open>Deleting feedback\<close>

lemma delete_feedback_never_404:
  "fst (delete_feedback l e req d) \<noteq> Sent (Response 404 pl)"
  by (auto simp: delete_feedback_def deleteOne_def try_catch_def catch_unbound_next_def
      split: option.splits prod.splits)

text \<open>
  C5 on the code. A delete request with a well-formed \<open>_id\<close> that no stored document has:
  \<open>deleteOne\<close> answers \<open>{ acknowledged: true, deletedCount: 0 }\<close>, the handler tests
  \<open>acknowledged\<close>, and the response is 200 with that result, not 404. Nothing is removed.
\<close>

theorem delete_unknown_feedback_is_200:
  "castObjectId demo_lib (params_id delete_unknown) = Some ''65f000000000000000000009''
   \<and> ''65f000000000000000000009'' \<notin> set (map f_oid (feedbacks same_instant))
   \<and> delete_feedback demo_lib (at_time 9) delete_unknown same_instant =
       (Sent (Response 200 (DeleteResult True 0)), same_instant)"
  by (simp add: delete_feedback_def deleteOne_def try_catch_def eval_examples)

section \<open>Approving feedback\<close>

text \<open>
  C6. Let the \<open>id\<close> of the request cast to the \<open>_id\<close> of a stored feedback document, and let
  the database answer both times. Then approving twice succeeds twice. The first call
  replaces the first stored document \<open>x\<close> with that \<open>_id\<close> by \<open>x\<close> with \<open>approved\<close> true,
  leaves every other document as it is, and answers 200 with the new document. The second
  call, on the database the first call left, answers 200 with the same document and
  leaves that database as it is: the stored document is approved after each call.
\<close>

theorem approve_twice:
  assumes "castObjectId l (params_id req) = Some i" and "f \<in> set (feedbacks d)"
    and "f_oid f = i" and "fault e1 0 = None" and "fault e2 0 = None"
  shows "\<exists>pre x post.
           feedbacks d = pre @ x # post \<and> f_oid x = i \<and> list_all (\<lambda>z. f_oid z \<noteq> i) pre
         \<and> put_feedback_approve l e1 req d
             = (Sent (Response 200 (FeedbackDoc (x\<lparr>f_approved := True\<rparr>))),
                d\<lparr>feedbacks := pre @ x\<lparr>f_approved := True\<rparr> # post\<rparr>)
         \<and> put_feedback_approve l e2 req (d\<lparr>feedbacks := pre @ x\<lparr>f_approved := True\<rparr> # post\<rparr>)
             = (Sent (Response 200 (FeedbackDoc (x\<lparr>f_approved := True\<rparr>))),
                d\<lparr>feedbacks := pre @ x\<lparr>f_approved := True\<rparr> # post\<rparr>)
         \<and> (distinct (map f_oid (feedbacks d)) \<longrightarrow> x = f)"
proof -
  let ?P = "\<lambda>f. f_oid f = i" and ?u = "\<lambda>f. f\<lparr>f_approved := True\<rparr>"
  from update_first_found [of f "feedbacks d" ?P ?u] assms obtain y ys where
    u: "update_first ?P ?u (feedbacks d) = Some (y, ys)"
    by auto
  from update_first_Some [OF u] obtain pre x post where
    sp: "feedbacks d = pre @ x # post" "f_oid x = i" "list_all (\<lambda>z. f_oid z \<noteq> i) pre"
      "y = x\<lparr>f_approved := True\<rparr>" "ys = pre @ y # post"
    by blast
  let ?d1 = "d\<lparr>feedbacks := pre @ x\<lparr>f_approved := True\<rparr> # post\<rparr>"
  have first: "put_feedback_approve l e1 req d = (Sent (Response 200 (FeedbackDoc y)), ?d1)"
    using assms u sp by (simp add: put_feedback_approve_def try_catch_def)
  have "update_first ?P ?u ys = Some (?u y, pre @ ?u y # post)"
    using sp by (intro update_first_split) auto
  moreover have "?u y = y"
    using sp by simp
  ultimately have "update_first ?P ?u (feedbacks ?d1) = Some (y, ys)"
    using sp by simp
  then have second: "put_feedback_approve l e2 req ?d1 = (Sent (Response 200 (FeedbackDoc y)), ?d1)"
    using assms sp by (simp add: put_feedback_approve_def try_catch_def)
  have same: "distinct (map f_oid (feedbacks d)) \<longrightarrow> x = f"
  proof
    assume "distinct (map f_oid (feedbacks d))"
    moreover have "x \<in> set (feedbacks d)"
      using sp by simp
    ultimately show "x = f"
      using assms(2,3) sp(2) by (intro same_oid_same_doc [of "feedbacks d" f x]) simp_all
  qed
  from first second sp same show ?thesis
    by blast
qed

theorem approve_twice_witness:
  "castObjectId demo_lib (params_id approve_first) = Some ''65f000000000000000000001''
   \<and> stored_feedback ''65f000000000000000000001'' 7 \<in> set (feedbacks same_instant)
   \<and> f_oid (stored_feedback ''65f000000000000000000001'' 7) = ''65f000000000000000000001''
   \<and> fault (at_time 9) 0 = None \<and> fault (at_time 10) 0 = None
   \<and> (\<exists>pre x post.
           feedbacks same_instant = pre @ x # post \<and> f_oid x = ''65f000000000000000000001''
         \<and> put_feedback_approve demo_lib (at_time 9) approve_first same_instant
             = (Sent (Response 200 (FeedbackDoc (x\<lparr>f_approved := True\<rparr>))),
                same_instant\<lparr>feedbacks := pre @ x\<lparr>f_approved := True\<rparr> # post\<rparr>)
         \<and> put_feedback_approve demo_lib (at_time 10) approve_first
               (same_instant\<lparr>feedbacks := pre @ x\<lparr>f_approved := True\<rparr> # post\<rparr>)
             = (Sent (Response 200 (FeedbackDoc (x\<lparr>f_approved := True\<rparr>))),
                same_instant\<lparr>feedbacks := pre @ x\<lparr>f_approved := True\<rparr> # post\<rparr>))
   \<and> put_feedback_approve demo_lib (at_time 9) approve_first same_instant =
     (Sent (Response 200 (FeedbackDoc
        ((stored_feedback ''65f000000000000000000001'' 7)\<lparr>f_approved := True\<rparr>))),
      same_instant\<lparr>feedbacks :=
        [(stored_feedback ''65f000000000000000000001'' 7)\<lparr>f_approved := True\<rparr>,
         stored_feedback ''65f000000000000000000002'' 7]\<rparr>)
   \<and> put_feedback_approve demo_lib (at_time 10) approve_first
        (same_instant\<lparr>feedbacks :=
          [(stored_feedback ''65f000000000000000000001'' 7)\<lparr>f_approved := True\<rparr>,
           stored_feedback ''65f000000000000000000002'' 7]\<rparr>) =
     (Sent (Response 200 (FeedbackDoc
        ((stored_feedback ''65f000000000000000000001'' 7)\<lparr>f_approved := True\<rparr>))),
      same_instant\<lparr>feedbacks :=
        [(stored_feedback ''65f000000000000000000001'' 7)\<lparr>f_approved := True\<rparr>,
         stored_feedback ''65f000000000000000000002'' 7]\<rparr>)"
proof -
  have c: "castObjectId demo_lib (params_id approve_first) = Some ''65f000000000000000000001''"
    and m: "stored_feedback ''65f000000000000000000001'' 7 \<in> set (feedbacks same_instant)"
    and i: "f_oid (stored_feedback ''65f000000000000000000001'' 7) = ''65f000000000000000000001''"
    and f1: "fault (at_time 9) 0 = None" and f2: "fault (at_time 10) 0 = None"
    by (simp_all add: eval_examples)
  from approve_twice [OF c m i f1 f2]
  have "\<exists>pre x post.
           feedbacks same_instant = pre @ x # post \<and> f_oid x = ''65f000000000000000000001''
         \<and> put_feedback_approve demo_lib (at_time 9) approve_first same_instant
             = (Sent (Response 200 (FeedbackDoc (x\<lparr>f_approved := True\<rparr>))),
                same_instant\<lparr>feedbacks := pre @ x\<lparr>f_approved := True\<rparr> # post\<rparr>)
         \<and> put_feedback_approve demo_lib (at_time 10) approve_first
               (same_instant\<lparr>feedbacks := pre @ x\<lparr>f_approved := True\<rparr> # post\<rparr>)
             = (Sent (Response 200 (FeedbackDoc (x\<lparr>f_approved := True\<rparr>))),
                same_instant\<lparr>feedbacks := pre @ x\<lparr>f_approved := True\<rparr> # post\<rparr>)"
    by blast
  moreover have "put_feedback_approve demo_lib (at_time 10) approve_first
        (same_instant\<lparr>feedbacks :=
          [(stored_feedback ''65f000000000000000000001'' 7)\<lparr>f_approved := True\<rparr>,
           stored_feedback ''65f000000000000000000002'' 7]\<rparr>) =
     (Sent (Response 200 (FeedbackDoc
        ((stored_feedback ''65f000000000000000000001'' 7)\<lparr>f_approved := True\<rparr>))),
      same_instant\<lparr>feedbacks :=
        [(stored_feedback ''65f000000000000000000001'' 7)\<lparr>f_approved := True\<rparr>,
         stored_feedback ''65f000000000000000000002'' 7]\<rparr>)"
    by (simp add: put_feedback_approve_def try_catch_def eval_examples)
  ultimately show ?thesis
    using c m i f1 f2 approve_first_same_instant by blast
qed

text \<open>
  C10. When the approval answers 200, one stored document was replaced by the document
  in the response, which is approved and has the \<open>_id\<close>, \<open>name\<close>, \<open>role\<close>, \<open>company\<close>,
  \<open>email\<close>, \<open>subject\<close>, \<open>message\<close> and \<open>createdAt\<close> of the one it replaces; every other
  document and the other collections are as before. And the handler gives the same
  result whatever the body (and the upload) of the request.
\<close>

theorem approve_changes_only_approved:
  "(put_feedback_approve l e req d = (Sent (Response 200 pl), d') \<longrightarrow>
      (\<exists>pre f post f'.
          feedbacks d = pre @ f # post \<and> castObjectId l (params_id req) = Some (f_oid f)
        \<and> pl = FeedbackDoc f' \<and> d' = d\<lparr>feedbacks := pre @ f' # post\<rparr>
        \<and> f_approved f' \<and> f_oid f' = f_oid f
        \<and> f_name f' = f_name f \<and> f_role f' = f_role f \<and> f_company f' = f_company f
        \<and> f_email f' = f_email f \<and> f_subject f' = f_subject f \<and> f_message f' = f_message f
        \<and> f_createdAt f' = f_createdAt f))
   \<and> put_feedback_approve l e (req\<lparr>body := b, upload := u\<rparr>) d = put_feedback_approve l e req d"
proof (intro conjI impI)
  assume a: "put_feedback_approve l e req d = (Sent (Response 200 pl), d')"
  then obtain i y ys where
    i: "castObjectId l (params_id req) = Some i" and
    u: "update_first (\<lambda>f. f_oid f = i) (\<lambda>f. f\<lparr>f_approved := True\<rparr>) (feedbacks d) = Some (y, ys)" and
    pl: "pl = FeedbackDoc y" and d': "d' = d\<lparr>feedbacks := ys\<rparr>"
    by (auto simp: put_feedback_approve_def try_catch_def catch_unbound_next_def
        split: option.splits prod.splits)
  from update_first_Some [OF u] obtain pre x post where
    sp: "feedbacks d = pre @ x # post" "f_oid x = i"
      "y = x\<lparr>f_approved := True\<rparr>" "ys = pre @ x\<lparr>f_approved := True\<rparr> # post"
    by blast
  show "\<exists>pre f post f'.
          feedbacks d = pre @ f # post \<and> castObjectId l (params_id req) = Some (f_oid f)
        \<and> pl = FeedbackDoc f' \<and> d' = d\<lparr>feedbacks := pre @ f' # post\<rparr>
        \<and> f_approved f' \<and> f_oid f' = f_oid f
        \<and> f_name f' = f_name f \<and> f_role f' = f_role f \<and> f_company f' = f_company f
        \<and> f_email f' = f_email f \<and> f_subject f' = f_subject f \<and> f_message f' = f_message f
        \<and> f_createdAt f' = f_createdAt f"
    using i pl d' sp
    by (intro exI [of _ pre] exI [of _ x] exI [of _ post] exI [of _ y]) simp
next
  show "put_feedback_approve l e (req\<lparr>body := b, upload := u\<rparr>) d = put_feedback_approve l e req d"
    by (simp add: put_feedback_approve_def)
qed

theorem approve_changes_only_approved_witness:
  "put_feedback_approve demo_lib (at_time 9) approve_first same_instant =
     (Sent (Response 200 (FeedbackDoc
        ((stored_feedback ''65f000000000000000000001'' 7)\<lparr>f_approved := True\<rparr>))),
      same_instant\<lparr>feedbacks :=
        [(stored_feedback ''65f000000000000000000001'' 7)\<lparr>f_approved := True\<rparr>,
         stored_feedback ''65f000000000000000000002'' 7]\<rparr>)
   \<and> (\<exists>pre f post f'.
          feedbacks same_instant = pre @ f # post
        \<and> castObjectId demo_lib (params_id approve_first) = Some (f_oid f)
        \<and> FeedbackDoc ((stored_feedback ''65f000000000000000000001'' 7)\<lparr>f_approved := True\<rparr>)
            = FeedbackDoc f'
        \<and> f_approved f' \<and> f_name f' = f_name f \<and> f_createdAt f' = f_createdAt f)
   \<and> put_feedback_approve demo_lib (at_time 9)
        (approve_first\<lparr>body := feedback_ann, upload := Some png_1KB\<rparr>) same_instant
      = put_feedback_approve demo_lib (at_time 9) approve_first same_instant"
proof -
  from approve_changes_only_approved [THEN conjunct1, rule_format, OF approve_first_same_instant]
  have "\<exists>pre f post f'.
          feedbacks same_instant = pre @ f # post
        \<and> castObjectId demo_lib (params_id approve_first) = Some (f_oid f)
        \<and> FeedbackDoc ((stored_feedback ''65f000000000000000000001'' 7)\<lparr>f_approved := True\<rparr>)
            = FeedbackDoc f'
        \<and> f_approved f' \<and> f_name f' = f_name f \<and> f_createdAt f' = f_createdAt f"
    by blast
  moreover have "put_feedback_approve demo_lib (at_time 9)
        (approve_first\<lparr>body := feedback_ann, upload := Some png_1KB\<rparr>) same_instant
      = put_feedback_approve demo_lib (at_time 9) approve_first same_instant"
    by (rule approve_changes_only_approved [THEN conjunct2])
  ultimately show ?thesis
    using approve_first_same_instant by blast
qed

section \<open>Uploads\<close>

lemma upload_single_refuses:
  assumes "mimetype file \<notin> set allowedTypes \<or> size_bytes file > 5 * 1024 * 1024"
  shows "\<exists>err. upload_single l e (Some file) = Inl err"
  using assms by (auto simp: upload_single_def fileFilter_def fileSize_def)

lemma upload_single_passes:
  "(\<exists>file. upload_single l e part = Inr file) \<longleftrightarrow>
   (case part of
      None \<Rightarrow> True
    | Some f \<Rightarrow> fieldname f = ''img'' \<and> mimetype f \<in> set allowedTypes
        \<and> (size_bytes f < fileSize \<or> (size_bytes f = fileSize \<and> \<not> refuses_at_limit l)))"
  by (auto simp: upload_single_def fileFilter_def split: option.splits)

text \<open>Whether a file of exactly 5 MiB passes depends on the multer in use.\<close>

lemma upload_single_at_limit:
  assumes "fieldname file = ''img''" and "mimetype file \<in> set allowedTypes"
    and "size_bytes file = 5 * 1024 * 1024"
  shows "(\<exists>err. upload_single l e (Some file) = Inl err) \<longleftrightarrow> refuses_at_limit l"
  using assms by (auto simp: upload_single_def fileFilter_def fileSize_def)

lemma create_text_file:
  "post_projects demo_lib (at_time 9) (create_A\<lparr>upload := Some text_file\<rparr>) two_projects =
     (Next (JsError ''Error'' ''Invalid file type. Only JPEG, PNG and GIF allowed.''), two_projects)"
  by (simp add: eval_post_projects eval_strings eval_examples)

lemma create_big_png:
  "post_projects demo_lib (at_time 9) (create_A\<lparr>upload := Some big_png\<rparr>) two_projects =
     (Next (JsError ''MulterError'' ''File too large''), two_projects)"
  by (simp add: eval_post_projects eval_strings eval_examples)

text \<open>
  C7. A request to \<open>POST /api/projects\<close> whose file has a content type outside the three
  allowed ones, or more than 5 MiB, ends in the upload middleware with an error handed to
  \<open>next\<close>: the client receives the 500 response of the error handler and the database is as
  before.
\<close>

theorem refused_upload_persists_nothing:
  assumes "upload req = Some file"
    and "mimetype file \<notin> set [''image/jpeg'', ''image/png'', ''image/gif'']
         \<or> size_bytes file > 5 * 1024 * 1024"
  shows "\<exists>err. post_projects l e req d = (Next err, d)
           \<and> app l POST_projects e req d
               = (Some (Response 500 (Failure ''Something went wrong!'' (err_message err))), d)"
proof -
  from assms(2) obtain err where "upload_single l e (Some file) = Inl err"
    using upload_single_refuses [of _ l e] by (auto simp: allowedTypes_def)
  with assms(1) have "post_projects l e req d = (Next err, d)"
    by (simp add: post_projects_def post_projects_read_def)
  then show ?thesis
    by (simp add: app_def respond_def errorHandler_def)
qed

theorem refused_upload_persists_nothing_witness:
  "upload (create_A\<lparr>upload := Some text_file\<rparr>) = Some text_file
   \<and> mimetype text_file \<notin> set [''image/jpeg'', ''image/png'', ''image/gif'']
   \<and> post_projects demo_lib (at_time 9) (create_A\<lparr>upload := Some text_file\<rparr>) two_projects =
       (Next (JsError ''Error'' ''Invalid file type. Only JPEG, PNG and GIF allowed.''), two_projects)
   \<and> upload (create_A\<lparr>upload := Some big_png\<rparr>) = Some big_png
   \<and> size_bytes big_png > 5 * 1024 * 1024
   \<and> post_projects demo_lib (at_time 9) (create_A\<lparr>upload := Some big_png\<rparr>) two_projects =
       (Next (JsError ''MulterError'' ''File too large''), two_projects)
   \<and> (\<exists>err. app demo_lib POST_projects (at_time 9) (create_A\<lparr>upload := Some text_file\<rparr>) two_projects
               = (Some (Response 500 (Failure ''Something went wrong!'' (err_message err))), two_projects))
   \<and> (\<exists>err. app demo_lib POST_projects (at_time 9) (create_A\<lparr>upload := Some big_png\<rparr>) two_projects
               = (Some (Response 500 (Failure ''Something went wrong!'' (err_message err))), two_projects))"
proof -
  have u1: "upload (create_A\<lparr>upload := Some text_file\<rparr>) = Some text_file"
    and u2: "upload (create_A\<lparr>upload := Some big_png\<rparr>) = Some big_png"
    by simp_all
  have t: "mimetype text_file \<notin> set [''image/jpeg'', ''image/png'', ''image/gif'']"
    and b: "size_bytes big_png > 5 * 1024 * 1024"
    by (simp_all add: text_file_def big_png_def png_1KB_def)
  from refused_upload_persists_nothing [OF u1 disjI1, OF t, of demo_lib "at_time 9" two_projects]
    refused_upload_persists_nothing [OF u2 disjI2, OF b, of demo_lib "at_time 9" two_projects]
    u1 u2 t b create_text_file create_big_png
  show ?thesis
    by blast
qed

section \<open>The text field \<open>img\<close>\<close>

lemma create_without_img_400:
  "post_projects demo_lib (at_time 9) create_without_img empty_db =
     (Sent (Response 400 (ValidationErrors [''img''])), empty_db)"
  by (simp add: eval_post_projects eval_strings eval_examples)

lemma create_text_file_without_img:
  "post_projects demo_lib (at_time 9) (create_without_img\<lparr>upload := Some text_file\<rparr>) empty_db =
     (Next (JsError ''Error'' ''Invalid file type. Only JPEG, PNG and GIF allowed.''), empty_db)"
  by (simp add: eval_post_projects eval_strings eval_examples)

text \<open>
  C9, as the code has it. \<open>validateProject\<close> reads \<open>req.body\<close>, where multer puts the text
  fields, and not \<open>req.file\<close>. So a request to \<open>POST /api/projects\<close> of \<open>index.js\<close> that the
  upload middleware lets pass (its text fields are parsed, and it carries no file, or a
  file under \<open>img\<close> of an allowed type and of less than 5 MiB) and whose body has no text
  field \<open>img\<close>, or an empty one, is answered 400 with a validation error for \<open>img\<close>, and
  the database is as before. (A file of exactly 5 MiB passes or not with the multer in
  use, see \<open>upload_single_at_limit\<close>.)
\<close>

theorem missing_img_field_is_400:
  assumes "case upload req of
             None \<Rightarrow> True
           | Some f \<Rightarrow> fieldname f = ''img''
               \<and> mimetype f \<in> set [''image/jpeg'', ''image/png'', ''image/gif'']
               \<and> size_bytes f < 5 * 1024 * 1024"
    and "b_img (body req) = None \<or> b_img (body req) = Some []"
  shows "\<exists>errors. post_projects l e req d = (Sent (Response 400 (ValidationErrors errors)), d)
           \<and> ''img'' \<in> set errors"
proof -
  from assms(1) obtain stored where "upload_single l e (upload req) = Inr stored"
    using upload_single_passes [of l e "upload req"]
    by (auto simp: allowedTypes_def fileSize_def split: option.splits)
  moreover from assms(2) have "''img'' \<in> set (fst (validateProject (body req)))"
    by (auto simp: validateProject_def check_def notEmpty_def)
  ultimately show ?thesis
    by (cases "validateProject (body req)")
      (auto simp: post_projects_def post_projects_read_def)
qed

theorem missing_img_field_is_400_witness:
  "upload create_without_img = Some png_1KB
   \<and> fieldname png_1KB = ''img''
   \<and> mimetype png_1KB \<in> set [''image/jpeg'', ''image/png'', ''image/gif'']
   \<and> size_bytes png_1KB < 5 * 1024 * 1024
   \<and> b_img (body create_without_img) = None
   \<and> (\<exists>errors. post_projects demo_lib (at_time 9) create_without_img empty_db
                   = (Sent (Response 400 (ValidationErrors errors)), empty_db)
           \<and> ''img'' \<in> set errors)"
proof -
  have facts: "upload create_without_img = Some png_1KB" "fieldname png_1KB = ''img''"
    "mimetype png_1KB \<in> set [''image/jpeg'', ''image/png'', ''image/gif'']"
    "size_bytes png_1KB < 5 * 1024 * 1024" "b_img (body create_without_img) = None"
    by (simp_all add: eval_examples)
  then have "case upload create_without_img of
             None \<Rightarrow> True
           | Some f \<Rightarrow> fieldname f = ''img''
               \<and> mimetype f \<in> set [''image/jpeg'', ''image/png'', ''image/gif'']
               \<and> size_bytes f < 5 * 1024 * 1024"
    by simp
  from missing_img_field_is_400 [OF this disjI1, OF facts(5), of demo_lib "at_time 9" empty_db] facts
  show ?thesis
    by blast
qed

text \<open>
  With a file the upload middleware refuses, the request never reaches the validator: the
  answer is the 500 of the error handler, not 400.
\<close>

theorem missing_img_field_counterexample:
  "b_img (body (create_without_img\<lparr>upload := Some text_file\<rparr>)) = None
   \<and> post_projects demo_lib (at_time 9) (create_without_img\<lparr>upload := Some text_file\<rparr>) empty_db =
       (Next (JsError ''Error'' ''Invalid file type. Only JPEG, PNG and GIF allowed.''), empty_db)
   \<and> app demo_lib POST_projects (at_time 9) (create_without_img\<lparr>upload := Some text_file\<rparr>) empty_db =
       (Some (Response 500 (Failure ''Something went wrong!''
          ''Invalid file type. Only JPEG, PNG and GIF allowed.'')), empty_db)"
  using create_text_file_without_img
  by (simp add: app_def respond_def errorHandler_def create_without_img_def project_A_def
      empty_body_def)

section \<open>The error handler\<close>

lemma next_is_answered_500:
  "respond v5 (Next err) = Some (Response 500 (Failure ''Something went wrong!'' (err_message err)))"
  by (simp add: respond_def errorHandler_def)

lemma try_catch_unbound_next: "fst (try_catch catch_unbound_next d r) \<noteq> Next err"
  by (auto simp: try_catch_def catch_unbound_next_def split: sum.splits)

text \<open>Of all the routes, only \<open>POST /api/projects\<close> ever hands an error to \<open>next\<close>.\<close>

lemma unbound_next_never_forwards:
  "r \<noteq> POST_projects \<Longrightarrow> fst (handler l r e req d) \<noteq> Next err"
  by (cases r)
    (simp_all add: get_projects_def get_projects_id_def put_projects_id_def
      delete_projects_id_def post_feedback_def get_feedback_def post_hire_me_def
      get_hire_me_def put_feedback_approve_def delete_feedback_def try_catch_unbound_next
      split: prod.splits)

text \<open>
  C8 on the code. \<open>GET /api/projects\<close> when the database call fails with the message
  \<open>connection lost\<close>: the \<open>catch\<close> block calls \<open>next\<close>, which is unbound in this handler, so the
  handler's promise is rejected with a \<open>ReferenceError\<close>. Under Express 4 no response is
  sent; under Express 5 the response is the 500 of the error handler with the text
  \<open>next is not defined\<close>. Neither carries the text of the underlying error.
\<close>

theorem get_projects_db_down:
  "fault (db_down 9) 0 = Some (JsError ''MongoNetworkError'' ''connection lost'')
   \<and> get_projects (db_down 9) plain_request two_projects
       = (Rejected (JsError ''ReferenceError'' ''next is not defined''), two_projects)
   \<and> app (demo_lib\<lparr>express5 := False\<rparr>) GET_projects (db_down 9) plain_request two_projects
       = (None, two_projects)
   \<and> app (demo_lib\<lparr>express5 := True\<rparr>) GET_projects (db_down 9) plain_request two_projects
       = (Some (Response 500 (Failure ''Something went wrong!'' ''next is not defined'')),
          two_projects)"
  by (simp add: app_def respond_def errorHandler_def get_projects_def try_catch_def
      catch_unbound_next_def next_is_not_defined_def db_down_def at_time_def
      connection_lost_def demo_lib_def)

end
